theory Spec2Isabelle
  imports Complex_Main "HOL-Library.Word" "HOL-Library.Sublist"
begin

section \<open>Go values\<close>

text \<open>
  A Go \<^verbatim>\<open>error\<close> is represented by its message text, a \<^verbatim>\<open>float64\<close> by a real number
  (finite values, exact arithmetic), an \<^verbatim>\<open>int64\<close> by a 64-bit word and an \<^verbatim>\<open>int\<close> that
  only carries an HTTP status by an integer. A function returning \<^verbatim>\<open>(T, error)\<close> with
  \<^verbatim>\<open>nil, err\<close> on every failing path is a sum, \<open>Inl err\<close> being the failure.
\<close>

type_synonym error = string

text \<open>
  Panics: \<^verbatim>\<open>xs[i]\<close> and \<^verbatim>\<open>s[:n]\<close> out of range, with the offending bound and the
  length or capacity, and \<^verbatim>\<open>panic(err)\<close>.
\<close>

datatype panic =
    IndexOutOfRange nat nat
  | SliceBoundsOutOfRange nat nat
  | PanicValue error

text \<open>
  A slice is a window on a backing array: \<open>backing\<close> holds the array from the slice's first
  element to the end of the array (so its length is the capacity) and \<open>len\<close> is the
  number of elements in the window. The \<^verbatim>\<open>nil\<close> slice has neither.
\<close>

record 'a slice =
  backing :: "'a list"
  len :: nat

definition cap :: "'a slice \<Rightarrow> nat" where
  "cap s = length (backing s)"

definition elems :: "'a slice \<Rightarrow> 'a list" where
  "elems s = take (len s) (backing s)"

definition nil_slice :: "'a slice" where
  "nil_slice = \<lparr>backing = [], len = 0\<rparr>"

text \<open>\<^verbatim>\<open>xs[i]\<close>: panics unless \<open>i < len(xs)\<close>.\<close>

definition index :: "'a list \<Rightarrow> nat \<Rightarrow> panic + 'a" where
  "index xs i = (if i < length xs then Inr (xs ! i) else Inl (IndexOutOfRange i (length xs)))"

text \<open>\<^verbatim>\<open>s[:n]\<close>: the bound is checked against the capacity, not the length.\<close>

definition slice_to :: "'a slice \<Rightarrow> nat \<Rightarrow> panic + 'a slice" where
  "slice_to s n = (if cap s < n then Inl (SliceBoundsOutOfRange n (cap s)) else Inr (s\<lparr>len := n\<rparr>))"

text \<open>\<^verbatim>\<open>errors.Wrap(err, message)\<close>: the message, a colon, the cause.\<close>

definition Wrap :: "error \<Rightarrow> string \<Rightarrow> error" where
  "Wrap err message = message @ '': '' @ err"

text \<open>The verb \<^verbatim>\<open>%d\<close> of the formatter on an integer: decimal digits, a minus sign first.\<close>

definition digitChar :: "nat \<Rightarrow> char" where
  "digitChar d = ''0123456789'' ! d"

fun digitsOf :: "nat \<Rightarrow> string" where
  "digitsOf n = (if n < 10 then [digitChar n] else digitsOf (n div 10) @ [digitChar (n mod 10)])"

declare digitsOf.simps [simp del]

definition itoa :: "int \<Rightarrow> string" where
  "itoa i = (if i < 0 then ''-'' @ digitsOf (nat (- i)) else digitsOf (nat i))"

text \<open>
  \<^verbatim>\<open>sort.Slice(x, less)\<close> is library code. It is modelled by the insertion sort the library
  runs on short slices (of up to six elements in every version of the library): for each
  position from left to right the element sinks towards the front while
  \<^verbatim>\<open>less(j, j-1)\<close> holds. On longer slices the library rearranges the slice first,
  which gives the same order whenever \<open>less\<close> is a strict order without ties. The
  comparison closure may panic, and then so does the sort. \<open>sink\<close> works on the sorted
  prefix in reverse (nearest neighbour first).
\<close>

fun sink :: "('a \<Rightarrow> 'a \<Rightarrow> panic + bool) \<Rightarrow> 'a \<Rightarrow> 'a list \<Rightarrow> panic + 'a list" where
  "sink lt x [] = Inr [x]"
| "sink lt x (y # ys) =
     (case lt x y of
        Inl p \<Rightarrow> Inl p
      | Inr True \<Rightarrow> (case sink lt x ys of Inl p \<Rightarrow> Inl p | Inr zs \<Rightarrow> Inr (y # zs))
      | Inr False \<Rightarrow> Inr (x # y # ys))"

fun insertionSort :: "('a \<Rightarrow> 'a \<Rightarrow> panic + bool) \<Rightarrow> 'a list \<Rightarrow> 'a list \<Rightarrow> panic + 'a list" where
  "insertionSort lt pre [] = Inr (rev pre)"
| "insertionSort lt pre (x # xs) =
     (case sink lt x pre of Inl p \<Rightarrow> Inl p | Inr pre' \<Rightarrow> insertionSort lt pre' xs)"

definition sort_Slice :: "('a \<Rightarrow> 'a \<Rightarrow> panic + bool) \<Rightarrow> 'a slice \<Rightarrow> panic + 'a slice" where
  "sort_Slice lt s =
     (case insertionSort lt [] (elems s) of
        Inl p \<Rightarrow> Inl p
      | Inr ys \<Rightarrow> Inr (s\<lparr>backing := ys @ drop (len s) (backing s)\<rparr>))"

section \<open>Package jump: the data fetcher\<close>

record http_Client =
  Timeout :: nat

record Client =
  networkID :: string
  httpClient :: http_Client

text \<open>\<^verbatim>\<open>httpTimeout = 5 * time.Second\<close>, in seconds.\<close>

definition httpTimeout :: nat where
  "httpTimeout = 5"

definition NewClient :: "string \<Rightarrow> Client" where
  "NewClient nid = \<lparr>networkID = nid, httpClient = \<lparr>Timeout = httpTimeout\<rparr>\<rparr>"

record Position =
  Coordinates :: "real list"

record Bike =
  ID :: "64 word"
  Name :: string
  NetworkID :: "64 word"
  StatsLastPor :: string
  BatteryLevel :: "64 word"
  VehicleType :: string
  UnlockingMethods :: "string list"
  Sponsored :: bool
  EbikeBatteryLevel :: "64 word"
  EbikeBatteryDistance :: real
  InsideArea :: bool
  Address :: string
  CurrentPosition :: Position

record Hub =
  ID :: real
  Name :: string
  Description :: string
  Address :: string
  AreaID :: "64 word"
  AvailableBikes :: "64 word"
  AvailableEbikes :: "64 word"
  AvailableScooters :: "64 word"
  AvailableVehicles :: "64 word"
  CollapseBikes :: bool
  CurrentBikes :: "64 word"
  DisplayMethod :: string
  FreeRacks :: "64 word"
  HasChargingInfrastructure :: bool
  HasKiosk :: bool
  LowChargeBountyHub :: bool
  MiddlePoint :: Position
  NetworkID :: real
  Polygon :: "string option"
  Priority :: bool
  Public :: bool
  RacksAmount :: real
  RebalanceBountyHub :: bool
  Sponsored :: bool
  SponsoredBikes :: "64 word"
  Visible :: bool
  Warehouse :: bool

text \<open>
  \<^verbatim>\<open>bikesResponse\<close> and \<^verbatim>\<open>hubResponse\<close> have the same four fields and differ in the
  type of the items only.
\<close>

record 'a pageResponse =
  CurrentPage :: "64 word"
  PerPage :: "64 word"
  TotalEntries :: "64 word"
  Items :: "'a slice"

type_synonym bikesResponse = "Bike pageResponse"
type_synonym hubResponse = "Hub pageResponse"

subsection \<open>The HTTP exchange\<close>

record request =
  Method :: string
  URL :: string
  Header :: "(string \<times> string) list"

text \<open>A JSON number is its literal: an integer literal, or one with a fraction or exponent.\<close>

datatype number = IntLit int | FracLit string

datatype json =
    JNull
  | JBool bool
  | JNumber number
  | JString string
  | JArray "json list"
  | JObject "(string \<times> json) list"

text \<open>
  A response is its status code and its body, seen in the two ways the code reads it:
  \<open>BodyText\<close> is what \<^verbatim>\<open>ioutil.ReadAll(res.Body)\<close> returns, \<open>BodyValue\<close> what the JSON
  decoder reads from \<^verbatim>\<open>res.Body\<close>: the first JSON value of the stream, or a read or
  syntax error.
\<close>

record response =
  StatusCode :: int
  BodyText :: "error + string"
  BodyValue :: "error + json"

text \<open>
  The network and the HTTP library: \<^verbatim>\<open>http.NewRequest(method, url, nil)\<close> and
  \<^verbatim>\<open>c.httpClient.Do(req)\<close>.
\<close>

record net =
  NewRequest :: "string \<Rightarrow> string \<Rightarrow> error + request"
  Do :: "request \<Rightarrow> error + response"

definition newRequest :: "net \<Rightarrow> Client \<Rightarrow> string \<Rightarrow> error + request" where
  "newRequest n c url =
     (case NewRequest n ''GET'' url of
        Inl err \<Rightarrow> Inl err
      | Inr req \<Rightarrow>
          Inr (req\<lparr>Header := Header req @
            [(''Referer'', ''https://map.jump.com/?network_id='' @ networkID c @ ''&theme=jump''),
             (''User-Agent'', ''Mozilla/5.0 (Macintosh; Intel Mac OS X 10_14_6) AppleWebKit/537.36 (KHTML, like Gecko) Chrome/76.0.3809.100 Safari/537.36''),
             (''Sec-Fetch-Mode'', ''cors''),
             (''Accept'', ''application/json, text/javascript, */*; q=0.01'')]\<rparr>))"

subsection \<open>Decoding the envelope\<close>

text \<open>
  \<^verbatim>\<open>json.NewDecoder(res.Body).Decode(&parsedBody)\<close> is library code, modelled from its
  documented behaviour on a struct:
  \<^item> an object key is matched to a field's tag under case folding (ASCII letters, and the
    two non-ASCII letters that fold to \<open>s\<close> and \<open>k\<close>); keys that match no field are ignored;
  \<^item> \<^verbatim>\<open>null\<close> leaves an integer field as it is and sets a slice field to \<^verbatim>\<open>nil\<close>; a field
    whose key is absent keeps its zero value;
  \<^item> an \<^verbatim>\<open>int64\<close> field takes an integer literal in range; a slice field takes an array,
    element by element;
  \<^item> anything else is an error, and so is a top-level value that is neither an object nor
    \<^verbatim>\<open>null\<close>.
  The decoding of one record and the spare capacity that the decoder's growth policy
  leaves behind \<open>n\<close> decoded elements are parameters. The texts of the library's errors
  are schematic.
\<close>

record 'a decoder =
  decodeItem :: "json \<Rightarrow> error + 'a"
  spare :: "nat \<Rightarrow> 'a list"

definition upperASCII :: "char \<Rightarrow> char" where
  "upperASCII c =
     (case map_of (zip ''abcdefghijklmnopqrstuvwxyz'' ''ABCDEFGHIJKLMNOPQRSTUVWXYZ'') c of
        None \<Rightarrow> c
      | Some u \<Rightarrow> u)"

text \<open>U+017F (bytes C5 BF) folds to S and U+212A (bytes E2 84 AA) folds to K.\<close>

fun foldName :: "string \<Rightarrow> string" where
  "foldName [] = []"
| "foldName [a] = [upperASCII a]"
| "foldName [a, b] =
     (if a = CHR 0xC5 \<and> b = CHR 0xBF then ''S'' else upperASCII a # foldName [b])"
| "foldName (a # b # c # cs) =
     (if a = CHR 0xC5 \<and> b = CHR 0xBF then CHR ''S'' # foldName (c # cs)
      else if a = CHR 0xE2 \<and> b = CHR 0x84 \<and> c = CHR 0xAA then CHR ''K'' # foldName cs
      else upperASCII a # foldName (b # c # cs))"

definition matches :: "string \<Rightarrow> string \<Rightarrow> bool" where
  "matches key tag = (foldName key = foldName tag)"

definition decodeInt64 :: "json \<Rightarrow> 64 word \<Rightarrow> error + 64 word" where
  "decodeInt64 j old =
     (case j of
        JNull \<Rightarrow> Inr old
      | JNumber (IntLit i) \<Rightarrow>
          if - (2 ^ 63) \<le> i \<and> i < 2 ^ 63 then Inr (word_of_int i)
          else Inl ''json: cannot unmarshal number into Go struct field of type int64''
      | _ \<Rightarrow> Inl ''json: cannot unmarshal value into Go struct field of type int64'')"

fun decodeArray :: "(json \<Rightarrow> error + 'a) \<Rightarrow> json list \<Rightarrow> error + 'a list" where
  "decodeArray f [] = Inr []"
| "decodeArray f (j # js) =
     (case f j of
        Inl err \<Rightarrow> Inl err
      | Inr x \<Rightarrow> (case decodeArray f js of Inl err \<Rightarrow> Inl err | Inr xs \<Rightarrow> Inr (x # xs)))"

definition decodeSlice :: "'a decoder \<Rightarrow> json \<Rightarrow> error + 'a slice" where
  "decodeSlice dec j =
     (case j of
        JNull \<Rightarrow> Inr nil_slice
      | JArray js \<Rightarrow>
          (case decodeArray (decodeItem dec) js of
             Inl err \<Rightarrow> Inl err
           | Inr xs \<Rightarrow>
               if xs = [] then Inr \<lparr>backing = [], len = 0\<rparr>
               else Inr \<lparr>backing = xs @ spare dec (length xs), len = length xs\<rparr>)
      | _ \<Rightarrow> Inl ''json: cannot unmarshal value into Go struct field of slice type'')"

definition decodeField ::
  "'a decoder \<Rightarrow> string \<Rightarrow> json \<Rightarrow> 'a pageResponse \<Rightarrow> error + 'a pageResponse" where
  "decodeField dec key j r =
     (if matches key ''current_position'' then
        (case decodeInt64 j (CurrentPage r) of
           Inl err \<Rightarrow> Inl err | Inr v \<Rightarrow> Inr (r\<lparr>CurrentPage := v\<rparr>))
      else if matches key ''per_page'' then
        (case decodeInt64 j (PerPage r) of
           Inl err \<Rightarrow> Inl err | Inr v \<Rightarrow> Inr (r\<lparr>PerPage := v\<rparr>))
      else if matches key ''total_entries'' then
        (case decodeInt64 j (TotalEntries r) of
           Inl err \<Rightarrow> Inl err | Inr v \<Rightarrow> Inr (r\<lparr>TotalEntries := v\<rparr>))
      else if matches key ''items'' then
        (case decodeSlice dec j of
           Inl err \<Rightarrow> Inl err | Inr v \<Rightarrow> Inr (r\<lparr>Items := v\<rparr>))
      else Inr r)"

fun decodeFields ::
  "'a decoder \<Rightarrow> (string \<times> json) list \<Rightarrow> 'a pageResponse \<Rightarrow> error + 'a pageResponse" where
  "decodeFields dec [] r = Inr r"
| "decodeFields dec ((key, j) # fs) r =
     (case decodeField dec key j r of
        Inl err \<Rightarrow> Inl err
      | Inr r' \<Rightarrow> decodeFields dec fs r')"

text \<open>\<^verbatim>\<open>var parsedBody bikesResponse\<close>: the zero value.\<close>

definition zeroResponse :: "'a pageResponse" where
  "zeroResponse = \<lparr>CurrentPage = 0, PerPage = 0, TotalEntries = 0, Items = nil_slice\<rparr>"

definition Decode :: "'a decoder \<Rightarrow> response \<Rightarrow> error + 'a pageResponse" where
  "Decode dec res =
     (case BodyValue res of
        Inl err \<Rightarrow> Inl err
      | Inr JNull \<Rightarrow> Inr zeroResponse
      | Inr (JObject fs) \<Rightarrow> decodeFields dec fs zeroResponse
      | Inr _ \<Rightarrow> Inl ''json: cannot unmarshal value into Go value of struct type'')"

subsection \<open>Bikes and Hubs\<close>

definition Bikes :: "net \<Rightarrow> Bike decoder \<Rightarrow> Client \<Rightarrow> error + Bike slice" where
  "Bikes n dec c =
     (let errPrefix = ''jump.Bikes'';
          url = ''https://app.jumpbikes.com/api/networks/'' @ networkID c @
                ''/bikes?collapsed=false&per_page=999''
      in case newRequest n c url of
           Inl err \<Rightarrow> Inl (Wrap err errPrefix)
         | Inr req \<Rightarrow>
             (case Do n req of
                Inl err \<Rightarrow> Inl (Wrap err errPrefix)
              | Inr res \<Rightarrow>
                  if StatusCode res \<noteq> 200 then
                    (let body = (case BodyText res of
                                   Inl err \<Rightarrow> ''could not parse body ('' @ err @ '')''
                                 | Inr bodyBytes \<Rightarrow> bodyBytes)
                     in Inl (Wrap (''got status code '' @ itoa (StatusCode res) @ '': '' @ body)
                                  errPrefix))
                  else
                    (case Decode dec res of
                       Inl err \<Rightarrow> Inl (Wrap err errPrefix)
                     | Inr parsedBody \<Rightarrow> Inr (Items parsedBody))))"

definition Hubs :: "net \<Rightarrow> Hub decoder \<Rightarrow> Client \<Rightarrow> error + Hub slice" where
  "Hubs n dec c =
     (let errPrefix = ''jump.Hubs'';
          url = ''https://app.jumpbikes.com/api/networks/'' @ networkID c @
                ''/hubs?collapsed=false&per_page=999''
      in case newRequest n c url of
           Inl err \<Rightarrow> Inl (Wrap err errPrefix)
         | Inr req \<Rightarrow>
             (case Do n req of
                Inl err \<Rightarrow> Inl (Wrap err errPrefix)
              | Inr res \<Rightarrow>
                  if StatusCode res \<noteq> 200 then
                    (let body = (case BodyText res of
                                   Inl err \<Rightarrow> ''could not parse body ('' @ err @ '')''
                                 | Inr bodyBytes \<Rightarrow> bodyBytes)
                     in Inl (Wrap (''got status code '' @ itoa (StatusCode res) @ '': '' @ body)
                                  errPrefix))
                  else
                    (case Decode dec res of
                       Inl err \<Rightarrow> Inl (Wrap err errPrefix)
                     | Inr parsedBody \<Rightarrow> Inr (Items parsedBody))))"

section \<open>Package main: the proximity ranker and the main flow\<close>

subsection \<open>Distance\<close>

definition hsin :: "real \<Rightarrow> real" where
  "hsin theta = (sin (theta / 2)) ^ 2"

text \<open>
  \<^verbatim>\<open>distance\<close> returns the distance between two coordinates in miles. The model
  computes in exact real arithmetic, where the argument of the arc sine never exceeds 1.
  The \<^verbatim>\<open>float64\<close> code rounds every operation: where the rounded \<open>h\<close> exceeds 1 (as it
  does for some pairs of antipodal points), and where an argument is not a number, it
  returns NaN, a value that the model does not have and that is not equal to itself.
  Statements about \<open>distance\<close> are therefore statements about the numbers the code
  approximates, up to rounding.
\<close>

definition distance :: "real \<Rightarrow> real \<Rightarrow> real \<Rightarrow> real \<Rightarrow> real" where
  "distance lat1 lon1 lat2 lon2 =
     (let la1 = lat1 * pi / 180;
          lo1 = lon1 * pi / 180;
          la2 = lat2 * pi / 180;
          lo2 = lon2 * pi / 180;
          r = 3958.756;
          h = hsin (la2 - la1) + cos la1 * cos la2 * hsin (lo2 - lo1)
      in 2 * r * arcsin (sqrt h))"

subsection \<open>What the main flow observes\<close>

text \<open>
  The hubs goroutine writes \<^verbatim>\<open>hubs\<close> and \<^verbatim>\<open>hubsErr\<close> at some moment of the main flow:
  before the main flow sorts \<^verbatim>\<open>hubs\<close>, after that but before the five-second timer of
  the hubs \<^verbatim>\<open>select\<close> fires, or not before that timer.
\<close>

datatype arrival = BeforeSort | BeforeDeadline | AfterDeadline

text \<open>
  The surroundings of one run: the environment, \<^verbatim>\<open>strconv.ParseFloat(val, 64)\<close>, what
  the two client calls return in their goroutines, whether \<^verbatim>\<open>bikesDone\<close> is closed
  before the timer of the bikes \<^verbatim>\<open>select\<close> fires, and when the hubs goroutine finishes.
\<close>

record world =
  LookupEnv :: "string \<Rightarrow> string option"
  ParseFloat :: "string \<Rightarrow> real \<times> error option"
  BikesCall :: "error + Bike slice"
  HubsCall :: "error + Hub slice"
  BikesDone :: bool
  HubsArrival :: arrival

text \<open>
  A printed line: \<^verbatim>\<open>fmt.Println(s)\<close> is \<open>Text s\<close>; \<open>BikeLine name address dist level\<close> is
  \<^verbatim>\<open>"Bike %s %s (%0.2f miles, %d%%)\n"\<close> and \<open>HubLine name address count dist\<close> is
  \<^verbatim>\<open>"Hub %s %s (%d bikes) (%0.2f miles)\n"\<close>, each with its arguments.
\<close>

datatype line =
    Text string
  | BikeLine string string real "64 word"
  | HubLine string string "64 word" real

text \<open>
  What the main flow does, in program order: it builds the client, starts a goroutine
  (\<open>Go\<close>), takes the done case (\<open>Recv\<close>) or the timer case (\<open>TimeAfter\<close>) of a
  \<^verbatim>\<open>select\<close>, reads an error variable (\<open>ReadErr\<close>), sorts a result slice (\<open>Sort\<close>),
  prints a line.
\<close>

datatype fetch = BikesFetch | HubsFetch

datatype event =
    NewClientCall
  | Go fetch
  | Recv fetch
  | TimeAfter fetch
  | ReadErr fetch
  | Sort fetch
  | Print line

datatype outcome = Return "error option" | Panics panic

definition stdout :: "event list \<Rightarrow> line list" where
  "stdout t = concat (map (\<lambda>e. case e of Print l \<Rightarrow> [l] | _ \<Rightarrow> []) t)"

subsection \<open>The functions of the command\<close>

definition getEnvFloat :: "world \<Rightarrow> string \<Rightarrow> real \<times> error option" where
  "getEnvFloat w name =
     (case LookupEnv w name of
        None \<Rightarrow> (0, Some (''envvar \"'' @ name @ ''\" not set''))
      | Some val \<Rightarrow>
          (case ParseFloat w val of
             (f, Some err) \<Rightarrow> (f, Some (Wrap err ''error parsing env var \"%s\" as float''))
           | (f, None) \<Rightarrow> (f, None)))"

text \<open>\<^verbatim>\<open>doAsync(f)\<close> starts the goroutine and hands back its done channel.\<close>

definition doAsync :: "fetch \<Rightarrow> event list" where
  "doAsync k = [Go k]"

text \<open>The comparison closures handed to \<^verbatim>\<open>sort.Slice\<close>.\<close>

definition lessBikes :: "real \<Rightarrow> real \<Rightarrow> Bike \<Rightarrow> Bike \<Rightarrow> panic + bool" where
  "lessBikes latitude longitude bi bj =
     (let iLocation = Coordinates (CurrentPosition bi);
          jLocation = Coordinates (CurrentPosition bj)
      in case index iLocation 1 of Inl p \<Rightarrow> Inl p | Inr i1 \<Rightarrow>
        (case index iLocation 0 of Inl p \<Rightarrow> Inl p | Inr i0 \<Rightarrow>
        (case index jLocation 1 of Inl p \<Rightarrow> Inl p | Inr j1 \<Rightarrow>
        (case index jLocation 0 of Inl p \<Rightarrow> Inl p | Inr j0 \<Rightarrow>
           (let iDistance = distance latitude longitude i1 i0;
                jDistance = distance latitude longitude j1 j0
            in Inr (iDistance < jDistance))))))"

definition lessHubs :: "real \<Rightarrow> real \<Rightarrow> Hub \<Rightarrow> Hub \<Rightarrow> panic + bool" where
  "lessHubs latitude longitude hi hj =
     (let iLocation = Coordinates (MiddlePoint hi);
          jLocation = Coordinates (MiddlePoint hj)
      in case index iLocation 1 of Inl p \<Rightarrow> Inl p | Inr i1 \<Rightarrow>
        (case index iLocation 0 of Inl p \<Rightarrow> Inl p | Inr i0 \<Rightarrow>
        (case index jLocation 1 of Inl p \<Rightarrow> Inl p | Inr j1 \<Rightarrow>
        (case index jLocation 0 of Inl p \<Rightarrow> Inl p | Inr j0 \<Rightarrow>
           (let iDistance = distance latitude longitude i1 i0;
                jDistance = distance latitude longitude j1 j0
            in Inr (iDistance < jDistance))))))"

text \<open>The two printing loops: the lines printed, and the panic that stopped the loop.\<close>

fun printBikes :: "real \<Rightarrow> real \<Rightarrow> Bike list \<Rightarrow> line list \<times> panic option" where
  "printBikes latitude longitude [] = ([], None)"
| "printBikes latitude longitude (bike # rest) =
     (let location = Coordinates (CurrentPosition bike)
      in case index location 1 of Inl p \<Rightarrow> ([], Some p) | Inr l1 \<Rightarrow>
        (case index location 0 of Inl p \<Rightarrow> ([], Some p) | Inr l0 \<Rightarrow>
           (let dist = distance latitude longitude l1 l0;
                (out, stop) = printBikes latitude longitude rest
            in (BikeLine (Bike.Name bike) (Bike.Address bike) dist (EbikeBatteryLevel bike) # out,
                stop))))"

fun printHubs :: "real \<Rightarrow> real \<Rightarrow> Hub list \<Rightarrow> line list \<times> panic option" where
  "printHubs latitude longitude [] = ([], None)"
| "printHubs latitude longitude (hub # rest) =
     (let location = Coordinates (MiddlePoint hub)
      in case index location 1 of Inl p \<Rightarrow> ([], Some p) | Inr l1 \<Rightarrow>
        (case index location 0 of Inl p \<Rightarrow> ([], Some p) | Inr l0 \<Rightarrow>
           (let dist = distance latitude longitude l1 l0;
                (out, stop) = printHubs latitude longitude rest
            in (HubLine (Hub.Name hub) (Hub.Address hub)
                  (AvailableBikes hub + AvailableEbikes hub) dist # out,
                stop))))"

text \<open>
  The second half of \<^verbatim>\<open>run\<close>, from the sort of \<^verbatim>\<open>hubs\<close> on. The sort comes before the
  \<^verbatim>\<open>select\<close> on \<^verbatim>\<open>hubsDone\<close>: it sees what the goroutine has written by then, the
  fetched slice when the goroutine has finished and the \<^verbatim>\<open>nil\<close> slice otherwise. A
  goroutine that finishes later overwrites \<^verbatim>\<open>hubs\<close> with the slice as fetched.
\<close>

definition runHubs :: "world \<Rightarrow> real \<Rightarrow> real \<Rightarrow> event list \<times> outcome" where
  "runHubs w latitude longitude =
     (let written = (case HubsCall w of Inl err \<Rightarrow> nil_slice | Inr fetched \<Rightarrow> fetched);
          hubs0 = (if HubsArrival w = BeforeSort then written else nil_slice)
      in case sort_Slice (lessHubs latitude longitude) hubs0 of
           Inl p \<Rightarrow> ([Sort HubsFetch], Panics p)
         | Inr hubs1 \<Rightarrow>
             if HubsArrival w = AfterDeadline then
               ([Sort HubsFetch, TimeAfter HubsFetch],
                Return (Some ''timed out waiting for hubs response''))
             else
               (case HubsCall w of
                  Inl hubsErr \<Rightarrow>
                    ([Sort HubsFetch, Recv HubsFetch, ReadErr HubsFetch], Return (Some hubsErr))
                | Inr fetched \<Rightarrow>
                    (let hubs = (if HubsArrival w = BeforeSort then hubs1 else fetched);
                         t = [Sort HubsFetch, Recv HubsFetch, ReadErr HubsFetch,
                              Print (Text ''Hubs'')]
                     in case slice_to hubs 5 of
                          Inl p \<Rightarrow> (t, Panics p)
                        | Inr five \<Rightarrow>
                            (case printHubs latitude longitude (elems five) of
                               (out, Some p) \<Rightarrow> (t @ map Print out, Panics p)
                             | (out, None) \<Rightarrow> (t @ map Print out, Return None)))))"

text \<open>
  The part of \<^verbatim>\<open>run\<close> after the \<^verbatim>\<open>select\<close> on \<^verbatim>\<open>bikesDone\<close> took the done case.
\<close>

definition runBikes :: "world \<Rightarrow> real \<Rightarrow> real \<Rightarrow> event list \<times> outcome" where
  "runBikes w latitude longitude =
     (case BikesCall w of
        Inl bikesErr \<Rightarrow> ([ReadErr BikesFetch], Return (Some bikesErr))
      | Inr bikes0 \<Rightarrow>
          (case sort_Slice (lessBikes latitude longitude) bikes0 of
             Inl p \<Rightarrow> ([ReadErr BikesFetch, Sort BikesFetch], Panics p)
           | Inr bikes \<Rightarrow>
               (let t = [ReadErr BikesFetch, Sort BikesFetch, Print (Text ''Bikes'')]
                in case slice_to bikes 5 of
                     Inl p \<Rightarrow> (t, Panics p)
                   | Inr five \<Rightarrow>
                       (case printBikes latitude longitude (elems five) of
                          (out, Some p) \<Rightarrow> (t @ map Print out, Panics p)
                        | (out, None) \<Rightarrow>
                            (let (t', result) = runHubs w latitude longitude
                             in (t @ map Print out @ [Print (Text [])] @ t', result))))))"

definition run :: "world \<Rightarrow> event list \<times> outcome" where
  "run w =
     (case getEnvFloat w ''LAT'' of
        (latitude, Some err) \<Rightarrow> ([], Return (Some err))
      | (latitude, None) \<Rightarrow>
          (case getEnvFloat w ''LNG'' of
             (longitude, Some err) \<Rightarrow> ([], Return (Some err))
           | (longitude, None) \<Rightarrow>
               (let t = [NewClientCall] @ doAsync BikesFetch @ doAsync HubsFetch
                in if BikesDone w then
                     (let (t', result) = runBikes w latitude longitude
                      in (t @ [Recv BikesFetch] @ t', result))
                   else
                     (t @ [TimeAfter BikesFetch],
                      Return (Some ''timed out waiting for bikes response'')))))"

text \<open>\<^verbatim>\<open>main\<close> panics with the error that \<^verbatim>\<open>run\<close> returns.\<close>

definition main :: "world \<Rightarrow> event list \<times> panic option" where
  "main w =
     (case run w of
        (t, Return None) \<Rightarrow> (t, None)
      | (t, Return (Some err)) \<Rightarrow> (t, Some (PanicValue err))
      | (t, Panics p) \<Rightarrow> (t, Some p))"

section \<open>Notions used to state the properties\<close>

text \<open>The text that stands for the body of a response in the error of a failed fetch.\<close>

definition bodyOrPlaceholder :: "response \<Rightarrow> string" where
  "bodyOrPlaceholder res =
     (case BodyText res of
        Inl err \<Rightarrow> ''could not parse body ('' @ err @ '')''
      | Inr text \<Rightarrow> text)"

text \<open>
  Decimal numerals, read independently of the formatter: the value of a digit string, and
  what it is for a string to be the numeral of an integer (digits only, no leading zero, a
  minus sign first for a negative integer).
\<close>

definition isDigit :: "char \<Rightarrow> bool" where
  "isDigit ch = (ch \<in> set ''0123456789'')"

definition digitValue :: "char \<Rightarrow> nat" where
  "digitValue ch = of_char ch - 48"

definition numeralValue :: "string \<Rightarrow> nat" where
  "numeralValue ds = foldl (\<lambda>v ch. 10 * v + digitValue ch) 0 ds"

definition isNumeralOf :: "string \<Rightarrow> nat \<Rightarrow> bool" where
  "isNumeralOf ds n =
     (ds \<noteq> [] \<and> list_all isDigit ds \<and> (ds = ''0'' \<or> hd ds \<noteq> CHR ''0'') \<and> numeralValue ds = n)"

definition isDecimalOf :: "string \<Rightarrow> int \<Rightarrow> bool" where
  "isDecimalOf s i =
     (if i < 0 then s \<noteq> [] \<and> hd s = CHR ''-'' \<and> isNumeralOf (tl s) (nat (- i))
      else isNumeralOf s (nat i))"

text \<open>A line of the hubs section: its title or the line of one hub.\<close>

definition isHubsOutput :: "line \<Rightarrow> bool" where
  "isHubsOutput l =
     (case l of Text s \<Rightarrow> s = ''Hubs'' | BikeLine n a d b \<Rightarrow> False | HubLine n a c d \<Rightarrow> True)"

section \<open>Test data\<close>

text \<open>The zero values of the two record types, and records that only have a name and
  coordinates.\<close>

definition zeroBike :: Bike where
  "zeroBike = \<lparr>Bike.ID = 0, Bike.Name = [], Bike.NetworkID = 0, StatsLastPor = [], BatteryLevel = 0,
     VehicleType = [], UnlockingMethods = [], Bike.Sponsored = False, EbikeBatteryLevel = 0,
     EbikeBatteryDistance = 0, InsideArea = False, Bike.Address = [],
     CurrentPosition = \<lparr>Coordinates = []\<rparr>\<rparr>"

definition zeroHub :: Hub where
  "zeroHub = \<lparr>Hub.ID = 0, Hub.Name = [], Description = [], Hub.Address = [], AreaID = 0,
     AvailableBikes = 0, AvailableEbikes = 0, AvailableScooters = 0, AvailableVehicles = 0,
     CollapseBikes = False, CurrentBikes = 0, DisplayMethod = [], FreeRacks = 0,
     HasChargingInfrastructure = False, HasKiosk = False, LowChargeBountyHub = False,
     MiddlePoint = \<lparr>Coordinates = []\<rparr>, Hub.NetworkID = 0, Polygon = None, Priority = False,
     Public = False, RacksAmount = 0, RebalanceBountyHub = False, Hub.Sponsored = False,
     SponsoredBikes = 0, Visible = False, Warehouse = False\<rparr>"

definition bikeAt :: "string \<Rightarrow> real list \<Rightarrow> Bike" where
  "bikeAt name cs = zeroBike\<lparr>Bike.Name := name, CurrentPosition := \<lparr>Coordinates = cs\<rparr>\<rparr>"

definition hubAt :: "string \<Rightarrow> real list \<Rightarrow> Hub" where
  "hubAt name cs = zeroHub\<lparr>Hub.Name := name, MiddlePoint := \<lparr>Coordinates = cs\<rparr>\<rparr>"

text \<open>The longitude of the point on the equator \<open>d\<close> miles east of latitude 0, longitude 0.\<close>

definition milesEast :: "real \<Rightarrow> real" where
  "milesEast d = d * 180 / (3958.756 * pi)"

text \<open>A float parser that knows one numeral, and an environment that places the user at
  latitude 0, longitude 0.\<close>

definition fixtureParseFloat :: "string \<Rightarrow> real \<times> error option" where
  "fixtureParseFloat s =
     (if s = ''0'' then (0, None)
      else (0, Some (''strconv.ParseFloat: parsing \"'' @ s @ ''\": invalid syntax'')))"

definition origin :: "string \<Rightarrow> string option" where
  "origin = [''LAT'' \<mapsto> ''0'', ''LNG'' \<mapsto> ''0'']"

definition fixtureWorld ::
  "(string \<Rightarrow> string option) \<Rightarrow> error + Bike slice \<Rightarrow> error + Hub slice \<Rightarrow> bool \<Rightarrow> arrival
     \<Rightarrow> world" where
  "fixtureWorld env bikes hubs finished arr =
     \<lparr>LookupEnv = env, ParseFloat = fixtureParseFloat, BikesCall = bikes, HubsCall = hubs,
      BikesDone = finished, HubsArrival = arr\<rparr>"

text \<open>Three bikes in a backing array of four, as a decoder that grows its slice to capacity
  four leaves them; five bikes; five hubs of which the second is the nearest; six bikes
  east of the user at the distances of the ranking example.\<close>

definition threeBikes :: "Bike slice" where
  "threeBikes =
     \<lparr>backing = [bikeAt ''a'' [0, 0], bikeAt ''b'' [0, 0], bikeAt ''c'' [0, 0], zeroBike],
      len = 3\<rparr>"

definition fiveBikes :: "Bike slice" where
  "fiveBikes =
     \<lparr>backing = [bikeAt ''a'' [0, 0], bikeAt ''b'' [0, 0], bikeAt ''c'' [0, 0],
                 bikeAt ''d'' [0, 0], bikeAt ''e'' [0, 0]],
      len = 5\<rparr>"

definition fiveHubs :: "Hub slice" where
  "fiveHubs =
     \<lparr>backing = [hubAt ''far'' [1, 0], hubAt ''near'' [0, 0], hubAt ''h3'' [1, 0],
                 hubAt ''h4'' [1, 0], hubAt ''h5'' [1, 0]],
      len = 5\<rparr>"

definition sixBikes :: "Bike slice" where
  "sixBikes =
     \<lparr>backing = [bikeAt ''b50'' [milesEast 50, 0], bikeAt ''b10'' [milesEast 10, 0],
                 bikeAt ''b30'' [milesEast 30, 0], bikeAt ''b5'' [milesEast 5, 0],
                 bikeAt ''b100'' [milesEast 100, 0], bikeAt ''b20'' [milesEast 20, 0]],
      len = 6\<rparr>"

definition sixHubs :: "Hub slice" where
  "sixHubs =
     \<lparr>backing = [hubAt ''h50'' [milesEast 50, 0], hubAt ''h10'' [milesEast 10, 0],
                 hubAt ''h30'' [milesEast 30, 0], hubAt ''h5'' [milesEast 5, 0],
                 hubAt ''h100'' [milesEast 100, 0], hubAt ''h20'' [milesEast 20, 0]],
      len = 6\<rparr>"

text \<open>A network that answers every request with the same response, decoders that read
  every record as the zero value, and two responses.\<close>

definition fixtureNet :: "response \<Rightarrow> net" where
  "fixtureNet res =
     \<lparr>NewRequest = (\<lambda>m u. Inr \<lparr>Method = m, URL = u, Header = []\<rparr>), Do = (\<lambda>req. Inr res)\<rparr>"

definition fixtureBikeDecoder :: "Bike decoder" where
  "fixtureBikeDecoder = \<lparr>decodeItem = (\<lambda>j. Inr zeroBike), spare = (\<lambda>n. [])\<rparr>"

definition fixtureHubDecoder :: "Hub decoder" where
  "fixtureHubDecoder = \<lparr>decodeItem = (\<lambda>j. Inr zeroHub), spare = (\<lambda>n. [])\<rparr>"

definition notFound :: response where
  "notFound =
     \<lparr>StatusCode = 404, BodyText = Inr ''Not Found'', BodyValue = Inl ''invalid character''\<rparr>"

definition noItems :: response where
  "noItems =
     \<lparr>StatusCode = 200, BodyText = Inr [],
      BodyValue = Inr (JObject [(''current_page'', JNumber (IntLit 1)),
                                (''per_page'', JNumber (IntLit 999)),
                                (''bikes'', JArray [JObject []])])\<rparr>"


text \<open>A network that answers by the URL of the request and refuses every other URL, and
  two more responses: one whose body cannot be read, one with \<open>null\<close> items.\<close>

definition routedNet :: "(string \<times> response) list \<Rightarrow> net" where
  "routedNet routes =
     \<lparr>NewRequest = (\<lambda>m u. Inr \<lparr>Method = m, URL = u, Header = []\<rparr>),
      Do = (\<lambda>req. case map_of routes (URL req) of
                     None \<Rightarrow> Inl ''dial tcp: connection refused''
                   | Some res \<Rightarrow> Inr res)\<rparr>"

definition unavailable :: response where
  "unavailable =
     \<lparr>StatusCode = 503, BodyText = Inl ''unexpected EOF'', BodyValue = Inl ''unexpected EOF''\<rparr>"

definition nullItems :: response where
  "nullItems =
     \<lparr>StatusCode = 200, BodyText = Inr [],
      BodyValue = Inr (JObject [(''Items'', JNull), (''total_entries'', JNumber (IntLit 0))])\<rparr>"

text \<open>The two URLs that a client for network 189 requests.\<close>

definition bikesURL189 :: string where
  "bikesURL189 = ''https://app.jumpbikes.com/api/networks/189/bikes?collapsed=false&per_page=999''"

definition hubsURL189 :: string where
  "hubsURL189 = ''https://app.jumpbikes.com/api/networks/189/hubs?collapsed=false&per_page=999''"

section \<open>Properties of the distance function\<close>

lemma hsin_minus: "hsin (- x) = hsin x"
  by (simp add: hsin_def)

text \<open>
  In exact arithmetic the formula is symmetric. For two antipodal points the exact value
  of \<open>h\<close> is 1, the largest argument the arc sine accepts: this is where the \<^verbatim>\<open>float64\<close>
  code, whose rounded \<open>h\<close> can exceed 1, returns NaN in both orders, so that the
  comparison of the two results with \<^verbatim>\<open>==\<close> is false there.
\<close>

lemma distance_symmetric_exact: "distance lat1 lon1 lat2 lon2 = distance lat2 lon2 lat1 lon1"
proof -
  have "hsin (lat2 * pi / 180 - lat1 * pi / 180) = hsin (lat1 * pi / 180 - lat2 * pi / 180)"
    using hsin_minus [of "lat1 * pi / 180 - lat2 * pi / 180"] by simp
  moreover
  have "hsin (lon2 * pi / 180 - lon1 * pi / 180) = hsin (lon1 * pi / 180 - lon2 * pi / 180)"
    using hsin_minus [of "lon1 * pi / 180 - lon2 * pi / 180"] by simp
  ultimately show ?thesis by (simp add: distance_def Let_def mult.commute)
qed

lemma antipodal_h_exact:
  "hsin ((- lat) * pi / 180 - lat * pi / 180)
     + cos (lat * pi / 180) * cos ((- lat) * pi / 180) * hsin ((lon - 180) * pi / 180 - lon * pi / 180)
   = 1"
proof -
  have a: "((- lat) * pi / 180 - lat * pi / 180) / 2 = - (lat * pi / 180)" by simp
  have "(lon - 180) * pi / 180 - lon * pi / 180 = - pi" by (simp add: field_simps)
  then have b: "((lon - 180) * pi / 180 - lon * pi / 180) / 2 = - (pi / 2)" by simp
  have "hsin ((- lat) * pi / 180 - lat * pi / 180) = (sin (lat * pi / 180))\<^sup>2"
    unfolding hsin_def a by simp
  moreover have "hsin ((lon - 180) * pi / 180 - lon * pi / 180) = 1"
    unfolding hsin_def b by simp
  moreover have "cos ((- lat) * pi / 180) = cos (lat * pi / 180)"
    using cos_minus [of "lat * pi / 180"] by simp
  ultimately show ?thesis by (simp add: power2_eq_square [symmetric])
qed

text \<open>Along the equator the distance from longitude 0 is the arc length.\<close>

lemma distance_equator:
  assumes "0 \<le> lon" "lon \<le> 180"
  shows "distance 0 0 0 lon = 3958.756 * (lon * pi / 180)"
proof -
  define t where "t = lon * pi / 180 / 2"
  have t0: "0 \<le> t" using assms by (simp add: t_def)
  have t1: "t \<le> pi / 2" using assms by (simp add: t_def field_simps)
  have s: "0 \<le> sin t" using t0 t1 by (intro sin_ge_zero) (auto simp: field_simps)
  have "- (pi / 2) \<le> t" using t0 pi_ge_zero by linarith
  then have "arcsin (sin t) = t" using t1 by (intro arcsin_sin)
  moreover have "sqrt ((sin t)\<^sup>2) = sin t" using s by simp
  moreover have "distance 0 0 0 lon = 2 * 3958.756 * arcsin (sqrt ((sin t)\<^sup>2))"
    by (simp add: distance_def hsin_def Let_def t_def)
  ultimately have "distance 0 0 0 lon = 2 * 3958.756 * t" by simp
  then show ?thesis by (simp add: t_def)
qed

lemma distance_milesEast:
  assumes "0 \<le> d" "d \<le> 7000"
  shows "distance 0 0 0 (milesEast d) = d"
proof -
  have p: "0 < pi" by simp
  have "2 \<le> pi" by (rule pi_ge_two)
  then have "7000 \<le> 3958.756 * pi" by simp
  with assms have "d \<le> 3958.756 * pi" by linarith
  then have "d * 180 \<le> 180 * (3958.756 * pi)" by simp
  then have hi: "milesEast d \<le> 180"
    unfolding milesEast_def using p by (simp add: field_simps)
  have lo: "0 \<le> milesEast d" using assms p by (simp add: milesEast_def)
  have "distance 0 0 0 (milesEast d) = 3958.756 * (milesEast d * pi / 180)"
    using lo hi by (rule distance_equator)
  also have "\<dots> = d" using p by (simp add: milesEast_def)
  finally show ?thesis .
qed

text \<open>
  Bounds on \<open>pi\<close> from Machin's formula, with the arc tangent between two partial sums of
  its series. Each bound on the arc tangent holds because the difference of the two sides
  vanishes at 0 and has a derivative that is never negative.
\<close>

lemma one_plus_square_nonzero: "1 + t\<^sup>2 \<noteq> (0::real)"
proof -
  have "0 \<le> t\<^sup>2" by simp
  then have "0 < 1 + t\<^sup>2" by linarith
  then show ?thesis by simp
qed

lemma arctan_lower_cubic:
  assumes "0 \<le> x"
  shows "x - x ^ 3 / 3 \<le> arctan x"
proof -
  let ?f = "\<lambda>t::real. arctan t - t + t ^ 3 / 3"
  have "?f 0 \<le> ?f x"
  proof (rule DERIV_nonneg_imp_nondecreasing [OF assms])
    fix t :: real
    have d: "(?f has_real_derivative (1 / (1 + t\<^sup>2) - 1 + t\<^sup>2)) (at t)"
      by (auto intro!: derivative_eq_intros simp: field_simps)
    have "1 / (1 + t\<^sup>2) - 1 + t\<^sup>2 = t ^ 4 / (1 + t\<^sup>2)"
      using one_plus_square_nonzero [of t]
      by (simp add: field_simps power4_eq_xxxx power2_eq_square)
    moreover have "0 \<le> t ^ 4 / (1 + t\<^sup>2)" by (simp add: add_nonneg_nonneg)
    ultimately show "\<exists>y. (?f has_real_derivative y) (at t) \<and> 0 \<le> y"
      using d by auto
  qed
  then show ?thesis by simp
qed

lemma arctan_upper_quintic:
  assumes "0 \<le> x"
  shows "arctan x \<le> x - x ^ 3 / 3 + x ^ 5 / 5"
proof -
  let ?f = "\<lambda>t::real. t - t ^ 3 / 3 + t ^ 5 / 5 - arctan t"
  have "?f 0 \<le> ?f x"
  proof (rule DERIV_nonneg_imp_nondecreasing [OF assms])
    fix t :: real
    have d: "(?f has_real_derivative (1 - t\<^sup>2 + t ^ 4 - 1 / (1 + t\<^sup>2))) (at t)"
      by (auto intro!: derivative_eq_intros simp: field_simps)
    have "1 - t\<^sup>2 + t ^ 4 - 1 / (1 + t\<^sup>2) = t ^ 6 / (1 + t\<^sup>2)"
      using one_plus_square_nonzero [of t]
      by (simp add: field_simps power2_eq_square power4_eq_xxxx eval_nat_numeral)
    moreover have "0 \<le> t ^ 6 / (1 + t\<^sup>2)"
    proof -
      have "t ^ 6 = (t ^ 3)\<^sup>2" by (simp add: power_mult [symmetric])
      then show ?thesis by (simp add: add_nonneg_nonneg)
    qed
    ultimately show "\<exists>y. (?f has_real_derivative y) (at t) \<and> 0 \<le> y"
      using d by auto
  qed
  then show ?thesis by simp
qed

lemma pi_lower: "3.14 < pi"
proof -
  have a: "1/5 - (1/5) ^ 3 / 3 \<le> arctan (1/5 :: real)"
    using arctan_lower_cubic [of "1/5"] by simp
  have b: "arctan (1/239 :: real) \<le> 1/239 - (1/239) ^ 3 / 3 + (1/239) ^ 5 / 5"
    using arctan_upper_quintic [of "1/239"] by simp
  have "pi / 4 = 4 * arctan (1 / 5) - arctan (1 / 239)" by (rule machin)
  then have "pi = 16 * arctan (1 / 5) - 4 * arctan (1 / 239)" by simp
  with a b show ?thesis by (simp add: field_simps)
qed

lemma pi_upper: "pi < 3.15"
proof -
  have a: "arctan (1/5 :: real) \<le> 1/5 - (1/5) ^ 3 / 3 + (1/5) ^ 5 / 5"
    using arctan_upper_quintic [of "1/5"] by simp
  have b: "1/239 - (1/239) ^ 3 / 3 \<le> arctan (1/239 :: real)"
    using arctan_lower_cubic [of "1/239"] by simp
  have "pi / 4 = 4 * arctan (1 / 5) - arctan (1 / 239)" by (rule machin)
  then have "pi = 16 * arctan (1 / 5) - 4 * arctan (1 / 239)" by simp
  with a b show ?thesis by (simp add: field_simps)
qed

text \<open>
  C5. The distance function is the haversine formula with radius 3958.756 miles on
  coordinates in decimal degrees, and the distance between latitude 0, longitude 0 and
  latitude 0, longitude 1 is within 0.5 percent of 69.17 miles; so is the distance
  between latitude 0, longitude 0 and latitude 1, longitude 0.
\<close>

theorem distance_haversine_fixture:
  "distance lat1 lon1 lat2 lon2 =
     2 * 3958.756 *
       arcsin (sqrt ((sin ((lat2 * pi / 180 - lat1 * pi / 180) / 2))\<^sup>2 +
                     cos (lat1 * pi / 180) * cos (lat2 * pi / 180) *
                       (sin ((lon2 * pi / 180 - lon1 * pi / 180) / 2))\<^sup>2))
   \<and> \<bar>distance 0 0 0 1 - 69.17\<bar> \<le> 0.005 * 69.17
   \<and> \<bar>distance 0 0 1 0 - 69.17\<bar> \<le> 0.005 * 69.17"
proof -
  have formula: "distance lat1 lon1 lat2 lon2 =
     2 * 3958.756 *
       arcsin (sqrt ((sin ((lat2 * pi / 180 - lat1 * pi / 180) / 2))\<^sup>2 +
                     cos (lat1 * pi / 180) * cos (lat2 * pi / 180) *
                       (sin ((lon2 * pi / 180 - lon1 * pi / 180) / 2))\<^sup>2))"
    by (simp add: distance_def hsin_def Let_def)
  have d: "distance 0 0 0 1 = 3958.756 * (pi / 180)"
    using distance_equator [of 1] by simp
  have "3958.756 * (3.14 / 180) < 3958.756 * (pi / 180)"
    using pi_lower by simp
  then have lo: "69.05 < distance 0 0 0 1" using d by simp
  have "3958.756 * (pi / 180) < 3958.756 * (3.15 / 180)"
    using pi_upper by simp
  then have hi: "distance 0 0 0 1 < 69.28" using d by simp
  have east: "\<bar>distance 0 0 0 1 - 69.17\<bar> \<le> 0.005 * 69.17"
    unfolding abs_le_iff using lo hi by auto
  have "distance 0 0 1 0 = distance 0 0 0 1"
    by (simp add: distance_def hsin_def Let_def)
  with formula east show ?thesis by simp
qed

section \<open>Properties of the environment lookup\<close>

lemma sublist_mid: "sublist xs (ps @ xs @ ss)"
  unfolding sublist_def by blast

lemma sublist_front: "sublist xs (xs @ ss)"
  using sublist_mid [of xs "[]" ss] by simp

lemma sublist_back: "sublist xs (ps @ xs)"
  using sublist_mid [of xs ps "[]"] by simp

text \<open>
  C10. When the variable is set and its value does not parse as a float, the error of
  \<open>getEnvFloat\<close> is the text \<^verbatim>\<open>error parsing env var "%s" as float\<close>, a colon and the
  parser's error: the placeholder stays as it is and the message does not depend on the
  variable's name.
\<close>

theorem getEnvFloat_unparsable:
  assumes "LookupEnv w name = Some val" and "ParseFloat w val = (f, Some err)"
  shows "snd (getEnvFloat w name) = Some (''error parsing env var \"%s\" as float: '' @ err)
       \<and> sublist ''error parsing env var \"%s\" as float'' (the (snd (getEnvFloat w name)))"
proof -
  have m: "snd (getEnvFloat w name) =
      Some (''error parsing env var \"%s\" as float'' @ '': '' @ err)"
    using assms by (simp add: getEnvFloat_def Wrap_def)
  have "sublist ''error parsing env var \"%s\" as float''
      (''error parsing env var \"%s\" as float'' @ '': '' @ err)"
    by (rule sublist_front)
  with m show ?thesis by simp
qed

theorem getEnvFloat_unparsable_witness:
  "LookupEnv (fixtureWorld [''LAT'' \<mapsto> ''north''] (Inl []) (Inl []) False AfterDeadline) ''LAT''
     = Some ''north''
   \<and> snd (getEnvFloat
        (fixtureWorld [''LAT'' \<mapsto> ''north''] (Inl []) (Inl []) False AfterDeadline) ''LAT'')
     = Some ''error parsing env var \"%s\" as float: strconv.ParseFloat: parsing \"north\": invalid syntax''"
  using getEnvFloat_unparsable
    [of "fixtureWorld [''LAT'' \<mapsto> ''north''] (Inl []) (Inl []) False AfterDeadline"
      "''LAT''" "''north''" 0 "''strconv.ParseFloat: parsing \"north\": invalid syntax''"]
  by (simp add: fixtureWorld_def fixtureParseFloat_def)

section \<open>Properties of the data fetcher\<close>

lemma Bikes_non200:
  assumes "newRequest n c (''https://app.jumpbikes.com/api/networks/'' @ networkID c @
             ''/bikes?collapsed=false&per_page=999'') = Inr req"
    and "Do n req = Inr res" and "StatusCode res \<noteq> 200"
  shows "Bikes n dec c =
     Inl (''jump.Bikes: got status code '' @ itoa (StatusCode res) @ '': '' @ bodyOrPlaceholder res)"
  using assms by (simp add: Bikes_def Wrap_def Let_def bodyOrPlaceholder_def)

lemma Hubs_non200:
  assumes "newRequest n c (''https://app.jumpbikes.com/api/networks/'' @ networkID c @
             ''/hubs?collapsed=false&per_page=999'') = Inr req"
    and "Do n req = Inr res" and "StatusCode res \<noteq> 200"
  shows "Hubs n dec c =
     Inl (''jump.Hubs: got status code '' @ itoa (StatusCode res) @ '': '' @ bodyOrPlaceholder res)"
  using assms by (simp add: Hubs_def Wrap_def Let_def bodyOrPlaceholder_def)

lemma status_text_parts:
  "sublist code (pre @ code @ '': '' @ body) \<and> sublist body (pre @ code @ '': '' @ body)"
proof
  show "sublist code (pre @ code @ '': '' @ body)" by (rule sublist_mid)
  have "sublist body ((pre @ code @ '': '') @ body)" by (rule sublist_back)
  then show "sublist body (pre @ code @ '': '' @ body)" by simp
qed

text \<open>The formatter's \<open>itoa\<close> writes the decimal numeral of its argument.\<close>

lemma digitChar_cases:
  assumes "d < 10"
  shows "isDigit (digitChar d) \<and> digitValue (digitChar d) = d \<and> (digitChar d = CHR ''0'' \<longrightarrow> d = 0)"
proof -
  from assms have "d = 0 \<or> d = 1 \<or> d = 2 \<or> d = 3 \<or> d = 4 \<or> d = 5 \<or> d = 6 \<or> d = 7 \<or> d = 8 \<or> d = 9"
    by arith
  then show ?thesis
    by (elim disjE) (simp_all add: digitChar_def isDigit_def digitValue_def)
qed

lemma numeralValue_snoc: "numeralValue (ds @ [ch]) = 10 * numeralValue ds + digitValue ch"
  by (simp add: numeralValue_def)

lemma digitsOf_nonempty: "digitsOf n \<noteq> []"
  by (subst digitsOf.simps) simp

lemma digitsOf_digits: "list_all isDigit (digitsOf n)"
proof (induction n rule: digitsOf.induct)
  case (1 n)
  show ?case
  proof (cases "n < 10")
    case True
    then show ?thesis using digitChar_cases [of n] by (subst digitsOf.simps) simp
  next
    case False
    have "n mod 10 < 10" by simp
    then have "isDigit (digitChar (n mod 10))" using digitChar_cases by blast
    with False "1.IH" show ?thesis by (subst digitsOf.simps) simp
  qed
qed

lemma digitsOf_value: "numeralValue (digitsOf n) = n"
proof (induction n rule: digitsOf.induct)
  case (1 n)
  show ?case
  proof (cases "n < 10")
    case True
    then have "digitValue (digitChar n) = n" using digitChar_cases by blast
    with True show ?thesis by (subst digitsOf.simps) (simp add: numeralValue_def)
  next
    case False
    have "n mod 10 < 10" by simp
    then have "digitValue (digitChar (n mod 10)) = n mod 10" using digitChar_cases by blast
    with False "1.IH" show ?thesis
      by (subst digitsOf.simps) (simp add: numeralValue_snoc)
  qed
qed

lemma digitsOf_no_leading_zero: "0 < n \<Longrightarrow> hd (digitsOf n) \<noteq> CHR ''0''"
proof (induction n rule: digitsOf.induct)
  case (1 n)
  show ?case
  proof (cases "n < 10")
    case True
    with "1.prems" have "digitChar n \<noteq> CHR ''0''" using digitChar_cases [of n] by auto
    with True show ?thesis by (subst digitsOf.simps) simp
  next
    case False
    then have "0 < n div 10" by simp
    with False "1.IH" have "hd (digitsOf (n div 10)) \<noteq> CHR ''0''" by simp
    with False show ?thesis
      by (subst digitsOf.simps) (simp add: digitsOf_nonempty)
  qed
qed

lemma digitsOf_zero: "digitsOf 0 = ''0''"
  by (subst digitsOf.simps) (simp add: digitChar_def)

lemma digitsOf_numeral: "isNumeralOf (digitsOf n) n"
proof (cases "n = 0")
  case True
  then show ?thesis
    by (simp add: isNumeralOf_def digitsOf_zero isDigit_def numeralValue_def digitValue_def)
next
  case False
  then have "hd (digitsOf n) \<noteq> CHR ''0''" using digitsOf_no_leading_zero by simp
  then show ?thesis
    by (simp add: isNumeralOf_def digitsOf_nonempty digitsOf_digits digitsOf_value)
qed

lemma itoa_decimal: "isDecimalOf (itoa i) i"
  by (simp add: isDecimalOf_def itoa_def digitsOf_numeral)

text \<open>
  C6. When the response to its request has a status other than 200, \<open>Bikes\<close> returns an
  error whose text is \<^verbatim>\<open>jump.Bikes: got status code\<close>, the decimal numeral of the status
  code, a colon and the text of the body, or the placeholder when the body cannot be read;
  so the text contains the status code and the body. \<open>Hubs\<close> does the same under its own
  prefix. Each function is stated on its own request and response.
\<close>

theorem non200_status_error:
  "(newRequest n c (''https://app.jumpbikes.com/api/networks/'' @ networkID c @
        ''/bikes?collapsed=false&per_page=999'') = Inr breq
      \<and> Do n breq = Inr bres \<and> StatusCode bres \<noteq> 200 \<longrightarrow>
     (\<exists>ds msg. Bikes n bdec c = Inl msg
        \<and> msg = ''jump.Bikes: got status code '' @ ds @ '': '' @ bodyOrPlaceholder bres
        \<and> isDecimalOf ds (StatusCode bres)
        \<and> sublist ds msg \<and> sublist (bodyOrPlaceholder bres) msg))
   \<and> (newRequest n c (''https://app.jumpbikes.com/api/networks/'' @ networkID c @
        ''/hubs?collapsed=false&per_page=999'') = Inr hreq
      \<and> Do n hreq = Inr hres \<and> StatusCode hres \<noteq> 200 \<longrightarrow>
     (\<exists>ds msg. Hubs n hdec c = Inl msg
        \<and> msg = ''jump.Hubs: got status code '' @ ds @ '': '' @ bodyOrPlaceholder hres
        \<and> isDecimalOf ds (StatusCode hres)
        \<and> sublist ds msg \<and> sublist (bodyOrPlaceholder hres) msg))"
proof (intro conjI impI)
  assume a: "newRequest n c (''https://app.jumpbikes.com/api/networks/'' @ networkID c @
        ''/bikes?collapsed=false&per_page=999'') = Inr breq
      \<and> Do n breq = Inr bres \<and> StatusCode bres \<noteq> 200"
  let ?ds = "itoa (StatusCode bres)"
  let ?msg = "''jump.Bikes: got status code '' @ ?ds @ '': '' @ bodyOrPlaceholder bres"
  have "Bikes n bdec c = Inl ?msg" using a by (intro Bikes_non200) auto
  moreover have "isDecimalOf ?ds (StatusCode bres)" by (rule itoa_decimal)
  moreover have "sublist ?ds ?msg \<and> sublist (bodyOrPlaceholder bres) ?msg"
    by (rule status_text_parts)
  ultimately show "\<exists>ds msg. Bikes n bdec c = Inl msg
        \<and> msg = ''jump.Bikes: got status code '' @ ds @ '': '' @ bodyOrPlaceholder bres
        \<and> isDecimalOf ds (StatusCode bres)
        \<and> sublist ds msg \<and> sublist (bodyOrPlaceholder bres) msg"
    by blast
next
  assume a: "newRequest n c (''https://app.jumpbikes.com/api/networks/'' @ networkID c @
        ''/hubs?collapsed=false&per_page=999'') = Inr hreq
      \<and> Do n hreq = Inr hres \<and> StatusCode hres \<noteq> 200"
  let ?ds = "itoa (StatusCode hres)"
  let ?msg = "''jump.Hubs: got status code '' @ ?ds @ '': '' @ bodyOrPlaceholder hres"
  have "Hubs n hdec c = Inl ?msg" using a by (intro Hubs_non200) auto
  moreover have "isDecimalOf ?ds (StatusCode hres)" by (rule itoa_decimal)
  moreover have "sublist ?ds ?msg \<and> sublist (bodyOrPlaceholder hres) ?msg"
    by (rule status_text_parts)
  ultimately show "\<exists>ds msg. Hubs n hdec c = Inl msg
        \<and> msg = ''jump.Hubs: got status code '' @ ds @ '': '' @ bodyOrPlaceholder hres
        \<and> isDecimalOf ds (StatusCode hres)
        \<and> sublist ds msg \<and> sublist (bodyOrPlaceholder hres) msg"
    by blast
qed

theorem non200_status_error_witness:
  "Bikes (routedNet [(bikesURL189, notFound)]) fixtureBikeDecoder (NewClient ''189'')
       = Inl ''jump.Bikes: got status code 404: Not Found''
   \<and> Hubs (routedNet [(bikesURL189, notFound)]) fixtureHubDecoder (NewClient ''189'')
       = Inl ''jump.Hubs: dial tcp: connection refused''
   \<and> Hubs (routedNet [(hubsURL189, unavailable)]) fixtureHubDecoder (NewClient ''189'')
       = Inl ''jump.Hubs: got status code 503: could not parse body (unexpected EOF)''
   \<and> isDecimalOf ''404'' 404 \<and> isDecimalOf ''503'' 503"
proof -
  let ?c = "NewClient ''189''"
  let ?nb = "routedNet [(bikesURL189, notFound)]"
  let ?nh = "routedNet [(hubsURL189, unavailable)]"
  let ?breq = "\<lparr>Method = ''GET'', URL = bikesURL189, Header =
            [(''Referer'', ''https://map.jump.com/?network_id=189&theme=jump''),
             (''User-Agent'', ''Mozilla/5.0 (Macintosh; Intel Mac OS X 10_14_6) AppleWebKit/537.36 (KHTML, like Gecko) Chrome/76.0.3809.100 Safari/537.36''),
             (''Sec-Fetch-Mode'', ''cors''),
             (''Accept'', ''application/json, text/javascript, */*; q=0.01'')]\<rparr>"
  let ?hreq = "?breq\<lparr>URL := hubsURL189\<rparr>"
  have b1: "newRequest ?nb ?c (''https://app.jumpbikes.com/api/networks/'' @ networkID ?c @
        ''/bikes?collapsed=false&per_page=999'') = Inr ?breq"
    by (simp add: newRequest_def routedNet_def NewClient_def bikesURL189_def)
  have b2: "Do ?nb ?breq = Inr notFound" by (simp add: routedNet_def)
  have b3: "StatusCode notFound \<noteq> 200" by (simp add: notFound_def)
  have h1: "newRequest ?nh ?c (''https://app.jumpbikes.com/api/networks/'' @ networkID ?c @
        ''/hubs?collapsed=false&per_page=999'') = Inr ?hreq"
    by (simp add: newRequest_def routedNet_def NewClient_def hubsURL189_def)
  have h2: "Do ?nh ?hreq = Inr unavailable" by (simp add: routedNet_def)
  have h3: "StatusCode unavailable \<noteq> 200" by (simp add: unavailable_def)
  have i4: "itoa 404 = ''404''" by (simp add: itoa_def digitsOf.simps digitChar_def)
  have i5: "itoa 503 = ''503''" by (simp add: itoa_def digitsOf.simps digitChar_def)
  from non200_status_error [of ?nb ?c ?breq notFound fixtureBikeDecoder] b1 b2 b3
  obtain ds where
    b: "Bikes ?nb fixtureBikeDecoder ?c =
          Inl (''jump.Bikes: got status code '' @ ds @ '': '' @ bodyOrPlaceholder notFound)"
    and bd: "isDecimalOf ds (StatusCode notFound)"
    by blast
  from non200_status_error [of ?nh ?c _ _ _ ?hreq unavailable fixtureHubDecoder] h1 h2 h3
  obtain es where
    h: "Hubs ?nh fixtureHubDecoder ?c =
          Inl (''jump.Hubs: got status code '' @ es @ '': '' @ bodyOrPlaceholder unavailable)"
    and hd: "isDecimalOf es (StatusCode unavailable)"
    by blast
  have b': "Bikes ?nb fixtureBikeDecoder ?c = Inl ''jump.Bikes: got status code 404: Not Found''"
    using Bikes_non200 [OF b1 b2 b3, of fixtureBikeDecoder] i4
    by (simp add: bodyOrPlaceholder_def notFound_def)
  have h': "Hubs ?nh fixtureHubDecoder ?c =
      Inl ''jump.Hubs: got status code 503: could not parse body (unexpected EOF)''"
    using Hubs_non200 [OF h1 h2 h3, of fixtureHubDecoder] i5
    by (simp add: bodyOrPlaceholder_def unavailable_def)
  from b b' have "ds = ''404''" by (simp add: bodyOrPlaceholder_def notFound_def)
  with bd have d4: "isDecimalOf ''404'' 404" by (simp add: notFound_def)
  from h h' have "es = ''503''" by (simp add: bodyOrPlaceholder_def unavailable_def)
  with hd have d5: "isDecimalOf ''503'' 503" by (simp add: unavailable_def)
  have down: "Hubs ?nb fixtureHubDecoder ?c = Inl ''jump.Hubs: dial tcp: connection refused''"
    by (simp add: Hubs_def Let_def newRequest_def routedNet_def NewClient_def bikesURL189_def
        Wrap_def)
  from b' h' d4 d5 down show ?thesis by simp
qed

lemma decodeField_keeps_nil:
  assumes "decodeField dec key j r = Inr r'" and "Items r = nil_slice"
    and "matches key ''items'' \<longrightarrow> j = JNull"
  shows "Items r' = nil_slice"
  using assms
  by (auto simp: decodeField_def decodeSlice_def split: if_splits sum.splits)

lemma decodeFields_keeps_nil:
  assumes "decodeFields dec fs r = Inr r'" and "Items r = nil_slice"
    and "\<forall>(key, j) \<in> set fs. matches key ''items'' \<longrightarrow> j = JNull"
  shows "Items r' = nil_slice"
  using assms
proof (induction fs arbitrary: r)
  case Nil
  then show ?case by simp
next
  case (Cons f fs)
  obtain key j where f: "f = (key, j)" by (cases f)
  from Cons.prems(1) f obtain r1 where
    r1: "decodeField dec key j r = Inr r1" and rest: "decodeFields dec fs r1 = Inr r'"
    by (auto split: sum.splits)
  from Cons.prems(3) f have "matches key ''items'' \<longrightarrow> j = JNull" by simp
  with r1 Cons.prems(2) have "Items r1 = nil_slice" by (rule decodeField_keeps_nil)
  moreover from Cons.prems(3)
  have "\<forall>(key, j) \<in> set fs. matches key ''items'' \<longrightarrow> j = JNull" by simp
  ultimately show ?case using Cons.IH rest by blast
qed

lemma Decode_keeps_nil:
  assumes "BodyValue res = Inr (JObject fs)" and "Decode dec res = Inr parsedBody"
    and "\<forall>(key, j) \<in> set fs. matches key ''items'' \<longrightarrow> j = JNull"
  shows "Items parsedBody = nil_slice"
proof -
  from assms(1,2) have "decodeFields dec fs zeroResponse = Inr parsedBody"
    by (simp add: Decode_def)
  moreover have "Items (zeroResponse :: 'a pageResponse) = nil_slice"
    by (simp add: zeroResponse_def)
  ultimately show ?thesis using assms(3) by (rule decodeFields_keeps_nil)
qed

text \<open>
  C9. When the response to its request has status 200 and its body is a JSON object that
  decodes without error and in which no key matches \<open>items\<close>, or every key that does
  carries \<open>null\<close>, \<open>Bikes\<close> returns the \<open>nil\<close> slice, which has no element, and no
  error. \<open>Hubs\<close> does the same. Each function is stated on its own request and response.
\<close>

theorem missing_items_empty_list:
  "(newRequest n c (''https://app.jumpbikes.com/api/networks/'' @ networkID c @
        ''/bikes?collapsed=false&per_page=999'') = Inr breq
      \<and> Do n breq = Inr bres \<and> StatusCode bres = 200
      \<and> BodyValue bres = Inr (JObject bfs) \<and> Decode bdec bres = Inr bparsed
      \<and> (\<forall>(key, j) \<in> set bfs. matches key ''items'' \<longrightarrow> j = JNull) \<longrightarrow>
     Bikes n bdec c = Inr nil_slice \<and> elems (nil_slice :: Bike slice) = [])
   \<and> (newRequest n c (''https://app.jumpbikes.com/api/networks/'' @ networkID c @
        ''/hubs?collapsed=false&per_page=999'') = Inr hreq
      \<and> Do n hreq = Inr hres \<and> StatusCode hres = 200
      \<and> BodyValue hres = Inr (JObject hfs) \<and> Decode hdec hres = Inr hparsed
      \<and> (\<forall>(key, j) \<in> set hfs. matches key ''items'' \<longrightarrow> j = JNull) \<longrightarrow>
     Hubs n hdec c = Inr nil_slice \<and> elems (nil_slice :: Hub slice) = [])"
proof (intro conjI impI)
  assume a: "newRequest n c (''https://app.jumpbikes.com/api/networks/'' @ networkID c @
        ''/bikes?collapsed=false&per_page=999'') = Inr breq
      \<and> Do n breq = Inr bres \<and> StatusCode bres = 200
      \<and> BodyValue bres = Inr (JObject bfs) \<and> Decode bdec bres = Inr bparsed
      \<and> (\<forall>(key, j) \<in> set bfs. matches key ''items'' \<longrightarrow> j = JNull)"
  then have "Items bparsed = nil_slice" by (intro Decode_keeps_nil [of bres bfs bdec]) auto
  with a show "Bikes n bdec c = Inr nil_slice" by (simp add: Bikes_def Let_def)
next
  assume a: "newRequest n c (''https://app.jumpbikes.com/api/networks/'' @ networkID c @
        ''/hubs?collapsed=false&per_page=999'') = Inr hreq
      \<and> Do n hreq = Inr hres \<and> StatusCode hres = 200
      \<and> BodyValue hres = Inr (JObject hfs) \<and> Decode hdec hres = Inr hparsed
      \<and> (\<forall>(key, j) \<in> set hfs. matches key ''items'' \<longrightarrow> j = JNull)"
  then have "Items hparsed = nil_slice" by (intro Decode_keeps_nil [of hres hfs hdec]) auto
  with a show "Hubs n hdec c = Inr nil_slice" by (simp add: Hubs_def Let_def)
qed (simp_all add: elems_def nil_slice_def)

theorem missing_items_empty_list_witness:
  "Bikes (routedNet [(bikesURL189, noItems)]) fixtureBikeDecoder (NewClient ''189'') = Inr nil_slice
   \<and> Hubs (routedNet [(bikesURL189, noItems)]) fixtureHubDecoder (NewClient ''189'')
       = Inl ''jump.Hubs: dial tcp: connection refused''
   \<and> Hubs (routedNet [(hubsURL189, nullItems)]) fixtureHubDecoder (NewClient ''189'') = Inr nil_slice"
proof -
  let ?c = "NewClient ''189''"
  let ?nb = "routedNet [(bikesURL189, noItems)]"
  let ?nh = "routedNet [(hubsURL189, nullItems)]"
  let ?breq = "\<lparr>Method = ''GET'', URL = bikesURL189, Header =
            [(''Referer'', ''https://map.jump.com/?network_id=189&theme=jump''),
             (''User-Agent'', ''Mozilla/5.0 (Macintosh; Intel Mac OS X 10_14_6) AppleWebKit/537.36 (KHTML, like Gecko) Chrome/76.0.3809.100 Safari/537.36''),
             (''Sec-Fetch-Mode'', ''cors''),
             (''Accept'', ''application/json, text/javascript, */*; q=0.01'')]\<rparr>"
  let ?hreq = "?breq\<lparr>URL := hubsURL189\<rparr>"
  let ?bfs = "[(''current_page'', JNumber (IntLit 1)), (''per_page'', JNumber (IntLit 999)),
               (''bikes'', JArray [JObject []])]"
  let ?hfs = "[(''Items'', JNull), (''total_entries'', JNumber (IntLit 0))]"
  have b1: "newRequest ?nb ?c (''https://app.jumpbikes.com/api/networks/'' @ networkID ?c @
        ''/bikes?collapsed=false&per_page=999'') = Inr ?breq"
    by (simp add: newRequest_def routedNet_def NewClient_def bikesURL189_def)
  have b2: "Do ?nb ?breq = Inr noItems" by (simp add: routedNet_def)
  have b3: "StatusCode noItems = 200" by (simp add: noItems_def)
  have b4: "BodyValue noItems = Inr (JObject ?bfs)" by (simp add: noItems_def)
  have k: "\<not> matches ''current_page'' ''current_position'' \<and> \<not> matches ''current_page'' ''per_page''
      \<and> \<not> matches ''current_page'' ''total_entries'' \<and> \<not> matches ''current_page'' ''items''
      \<and> matches ''per_page'' ''per_page'' \<and> \<not> matches ''per_page'' ''current_position''
      \<and> \<not> matches ''per_page'' ''items''
      \<and> \<not> matches ''bikes'' ''current_position'' \<and> \<not> matches ''bikes'' ''per_page''
      \<and> \<not> matches ''bikes'' ''total_entries'' \<and> \<not> matches ''bikes'' ''items''
      \<and> matches ''Items'' ''items'' \<and> \<not> matches ''Items'' ''current_position''
      \<and> \<not> matches ''Items'' ''per_page'' \<and> \<not> matches ''Items'' ''total_entries''
      \<and> matches ''total_entries'' ''total_entries'' \<and> \<not> matches ''total_entries'' ''items''
      \<and> \<not> matches ''total_entries'' ''current_position'' \<and> \<not> matches ''total_entries'' ''per_page''"
    by (simp add: matches_def upperASCII_def)
  obtain bp where b5: "Decode fixtureBikeDecoder noItems = Inr bp"
    using k by (simp add: Decode_def noItems_def decodeField_def decodeInt64_def)
  have b6: "\<forall>(key, j) \<in> set ?bfs. matches key ''items'' \<longrightarrow> j = JNull" using k by simp
  have h1: "newRequest ?nh ?c (''https://app.jumpbikes.com/api/networks/'' @ networkID ?c @
        ''/hubs?collapsed=false&per_page=999'') = Inr ?hreq"
    by (simp add: newRequest_def routedNet_def NewClient_def hubsURL189_def)
  have h2: "Do ?nh ?hreq = Inr nullItems" by (simp add: routedNet_def)
  have h3: "StatusCode nullItems = 200" by (simp add: nullItems_def)
  have h4: "BodyValue nullItems = Inr (JObject ?hfs)" by (simp add: nullItems_def)
  obtain hp where h5: "Decode fixtureHubDecoder nullItems = Inr hp"
    using k by (simp add: Decode_def nullItems_def decodeField_def decodeInt64_def decodeSlice_def)
  have h6: "\<forall>(key, j) \<in> set ?hfs. matches key ''items'' \<longrightarrow> j = JNull" using k by simp
  have bikes: "Bikes ?nb fixtureBikeDecoder ?c = Inr nil_slice"
    using missing_items_empty_list [of ?nb ?c ?breq noItems ?bfs fixtureBikeDecoder bp]
      b1 b2 b3 b4 b5 b6 by blast
  have hubs: "Hubs ?nh fixtureHubDecoder ?c = Inr nil_slice"
    using missing_items_empty_list [of ?nh ?c _ _ _ _ _ ?hreq nullItems ?hfs fixtureHubDecoder hp]
      h1 h2 h3 h4 h5 h6 by blast
  have down: "Hubs ?nb fixtureHubDecoder ?c = Inl ''jump.Hubs: dial tcp: connection refused''"
    by (simp add: Hubs_def Let_def newRequest_def routedNet_def NewClient_def bikesURL189_def
        Wrap_def)
  from bikes hubs down show ?thesis by simp
qed

section \<open>Properties of the main flow\<close>

text \<open>
  C7. If \<open>LAT\<close> or \<open>LNG\<close> is absent from the environment, \<open>run\<close> returns an error and
  has done nothing before: the client is not built and no goroutine is started, so no
  request is issued.
\<close>

theorem run_missing_env:
  assumes "LookupEnv w ''LAT'' = None \<or> LookupEnv w ''LNG'' = None"
  shows "fst (run w) = [] \<and> (\<exists>err. snd (run w) = Return (Some err))
       \<and> NewClientCall \<notin> set (fst (run w)) \<and> (\<forall>k. Go k \<notin> set (fst (run w)))"
proof -
  have "fst (run w) = [] \<and> (\<exists>err. snd (run w) = Return (Some err))"
    using assms
    by (auto simp: run_def getEnvFloat_def split: option.splits prod.splits)
  then show ?thesis by simp
qed

theorem run_missing_env_witness:
  "LookupEnv (fixtureWorld [''LAT'' \<mapsto> ''0''] (Inr fiveBikes) (Inr fiveHubs) True BeforeSort) ''LNG''
     = None
   \<and> run (fixtureWorld [''LAT'' \<mapsto> ''0''] (Inr fiveBikes) (Inr fiveHubs) True BeforeSort)
     = ([], Return (Some ''envvar \"LNG\" not set''))"
  using run_missing_env
    [of "fixtureWorld [''LAT'' \<mapsto> ''0''] (Inr fiveBikes) (Inr fiveHubs) True BeforeSort"]
  by (simp add: fixtureWorld_def fixtureParseFloat_def run_def getEnvFloat_def)

lemmas run_eval = run_def runBikes_def runHubs_def getEnvFloat_def fixtureWorld_def
  fixtureParseFloat_def origin_def sort_Slice_def elems_def slice_to_def cap_def lessBikes_def
  lessHubs_def index_def Let_def doAsync_def nil_slice_def bikeAt_def hubAt_def zeroBike_def
  zeroHub_def

lemma stdout_Nil: "stdout [] = []"
  by (simp add: stdout_def)

lemma stdout_append: "stdout (s @ t) = stdout s @ stdout t"
  by (simp add: stdout_def)

lemma stdout_Cons: "stdout (e # t) = (case e of Print l \<Rightarrow> [l] | _ \<Rightarrow> []) @ stdout t"
  by (simp add: stdout_def)

lemma stdout_Print: "stdout (map Print ls) = ls"
  by (induction ls) (simp_all add: stdout_def)

lemma printBikes_no_hubs: "filter isHubsOutput (fst (printBikes la lo bs)) = []"
  by (induction bs) (auto simp: Let_def isHubsOutput_def split: sum.splits prod.splits)

lemma sort_nil: "sort_Slice lt nil_slice = Inr nil_slice"
  by (simp add: sort_Slice_def elems_def nil_slice_def)

lemma runHubs_failed:
  assumes "HubsArrival w = AfterDeadline \<or> (\<exists>e. HubsCall w = Inl e)"
  shows "stdout (fst (runHubs w la lo)) = []"
  using assms
  by (auto simp: runHubs_def sort_nil stdout_Cons stdout_Nil)

lemma runBikes_failed:
  assumes "BikesCall w = Inl e"
  shows "stdout (fst (runBikes w la lo)) = []"
  using assms by (simp add: runBikes_def stdout_Cons stdout_Nil)

lemma runBikes_no_hubs:
  assumes "HubsArrival w = AfterDeadline \<or> (\<exists>e. HubsCall w = Inl e)"
  shows "filter isHubsOutput (stdout (fst (runBikes w la lo))) = []"
proof (cases "BikesCall w")
  case (Inl e)
  then show ?thesis by (simp add: runBikes_failed)
next
  case (Inr bikes0)
  show ?thesis
  proof (cases "sort_Slice (lessBikes la lo) bikes0")
    case (Inl p)
    with Inr show ?thesis by (simp add: runBikes_def stdout_Cons stdout_Nil)
  next
    case sorted: (Inr bikes)
    show ?thesis
    proof (cases "slice_to bikes 5")
      case (Inl p)
      with Inr sorted show ?thesis
        by (simp add: runBikes_def stdout_Cons stdout_Nil isHubsOutput_def)
    next
      case five: (Inr five)
      obtain out stop where pb: "printBikes la lo (elems five) = (out, stop)"
        by (cases "printBikes la lo (elems five)")
      have out: "filter isHubsOutput out = []"
        using printBikes_no_hubs [of la lo "elems five"] pb by simp
      obtain t' r where rh: "runHubs w la lo = (t', r)" by (cases "runHubs w la lo")
      have t': "stdout t' = []" using runHubs_failed [OF assms, of la lo] rh by simp
      show ?thesis
      proof (cases stop)
        case None
        with Inr sorted five pb rh out t' show ?thesis
          by (simp add: runBikes_def stdout_Cons stdout_Nil stdout_append stdout_Print
              isHubsOutput_def)
      next
        case (Some p)
        with Inr sorted five pb out show ?thesis
          by (simp add: runBikes_def stdout_Cons stdout_Nil stdout_append stdout_Print
              isHubsOutput_def)
      qed
    qed
  qed
qed

lemma stdout_run:
  "stdout (fst (run w)) =
     (if snd (getEnvFloat w ''LAT'') = None \<and> snd (getEnvFloat w ''LNG'') = None \<and> BikesDone w
      then stdout (fst (runBikes w (fst (getEnvFloat w ''LAT'')) (fst (getEnvFloat w ''LNG''))))
      else [])"
proof -
  obtain la ea where a: "getEnvFloat w ''LAT'' = (la, ea)"
    by (cases "getEnvFloat w ''LAT''")
  obtain lo eo where b: "getEnvFloat w ''LNG'' = (lo, eo)"
    by (cases "getEnvFloat w ''LNG''")
  show ?thesis
    by (cases ea; cases eo)
      (simp_all add: run_def a b doAsync_def split_beta stdout_Cons stdout_Nil stdout_append)
qed

lemma sort_six:
  assumes "Coordinates (CurrentPosition b1) = [lon1, lat1]"
    and "Coordinates (CurrentPosition b2) = [lon2, lat2]"
    and "Coordinates (CurrentPosition b3) = [lon3, lat3]"
    and "Coordinates (CurrentPosition b4) = [lon4, lat4]"
    and "Coordinates (CurrentPosition b5) = [lon5, lat5]"
    and "Coordinates (CurrentPosition b6) = [lon6, lat6]"
    and "distance latitude longitude lat1 lon1 = 50"
    and "distance latitude longitude lat2 lon2 = 10"
    and "distance latitude longitude lat3 lon3 = 30"
    and "distance latitude longitude lat4 lon4 = 5"
    and "distance latitude longitude lat5 lon5 = 100"
    and "distance latitude longitude lat6 lon6 = 20"
  shows "sort_Slice (lessBikes latitude longitude) \<lparr>backing = [b1, b2, b3, b4, b5, b6], len = 6\<rparr>
           = Inr \<lparr>backing = [b4, b2, b6, b3, b1, b5], len = 6\<rparr>"
  using assms by (simp add: sort_Slice_def elems_def lessBikes_def index_def Let_def)

lemma print_five:
  assumes "Coordinates (CurrentPosition b1) = [lon1, lat1]"
    and "Coordinates (CurrentPosition b2) = [lon2, lat2]"
    and "Coordinates (CurrentPosition b3) = [lon3, lat3]"
    and "Coordinates (CurrentPosition b4) = [lon4, lat4]"
    and "Coordinates (CurrentPosition b6) = [lon6, lat6]"
    and "distance latitude longitude lat1 lon1 = 50"
    and "distance latitude longitude lat2 lon2 = 10"
    and "distance latitude longitude lat3 lon3 = 30"
    and "distance latitude longitude lat4 lon4 = 5"
    and "distance latitude longitude lat6 lon6 = 20"
  shows "printBikes latitude longitude [b4, b2, b6, b3, b1] =
     ([BikeLine (Bike.Name b4) (Bike.Address b4) 5 (EbikeBatteryLevel b4),
       BikeLine (Bike.Name b2) (Bike.Address b2) 10 (EbikeBatteryLevel b2),
       BikeLine (Bike.Name b6) (Bike.Address b6) 20 (EbikeBatteryLevel b6),
       BikeLine (Bike.Name b3) (Bike.Address b3) 30 (EbikeBatteryLevel b3),
       BikeLine (Bike.Name b1) (Bike.Address b1) 50 (EbikeBatteryLevel b1)], None)"
  using assms by (simp add: index_def Let_def)

text \<open>
  The ranking of bikes: six bikes at 50, 10, 30, 5, 100 and 20 miles from the user are
  sorted into the order 5, 10, 20, 30, 50, 100 miles; the first five of the sorted slice
  leave the bike at 100 miles out, and they are the bikes the main flow prints, nearest
  first, when the fetch delivers these six.
\<close>

lemma bikes_ranked:
  assumes "Coordinates (CurrentPosition b1) = [lon1, lat1]"
    and "Coordinates (CurrentPosition b2) = [lon2, lat2]"
    and "Coordinates (CurrentPosition b3) = [lon3, lat3]"
    and "Coordinates (CurrentPosition b4) = [lon4, lat4]"
    and "Coordinates (CurrentPosition b5) = [lon5, lat5]"
    and "Coordinates (CurrentPosition b6) = [lon6, lat6]"
    and "distance latitude longitude lat1 lon1 = 50"
    and "distance latitude longitude lat2 lon2 = 10"
    and "distance latitude longitude lat3 lon3 = 30"
    and "distance latitude longitude lat4 lon4 = 5"
    and "distance latitude longitude lat5 lon5 = 100"
    and "distance latitude longitude lat6 lon6 = 20"
    and "getEnvFloat w ''LAT'' = (latitude, None)"
    and "getEnvFloat w ''LNG'' = (longitude, None)"
    and "BikesDone w"
    and "BikesCall w = Inr \<lparr>backing = [b1, b2, b3, b4, b5, b6], len = 6\<rparr>"
  shows "sort_Slice (lessBikes latitude longitude) \<lparr>backing = [b1, b2, b3, b4, b5, b6], len = 6\<rparr>
           = Inr \<lparr>backing = [b4, b2, b6, b3, b1, b5], len = 6\<rparr>
       \<and> map_sum id elems (slice_to \<lparr>backing = [b4, b2, b6, b3, b1, b5], len = 6\<rparr> 5)
           = Inr [b4, b2, b6, b3, b1]
       \<and> b5 \<notin> set [b4, b2, b6, b3, b1]
       \<and> take 7 (stdout (fst (run w))) =
           [Text ''Bikes'',
            BikeLine (Bike.Name b4) (Bike.Address b4) 5 (EbikeBatteryLevel b4),
            BikeLine (Bike.Name b2) (Bike.Address b2) 10 (EbikeBatteryLevel b2),
            BikeLine (Bike.Name b6) (Bike.Address b6) 20 (EbikeBatteryLevel b6),
            BikeLine (Bike.Name b3) (Bike.Address b3) 30 (EbikeBatteryLevel b3),
            BikeLine (Bike.Name b1) (Bike.Address b1) 50 (EbikeBatteryLevel b1),
            Text []]"
proof -
  have s: "sort_Slice (lessBikes latitude longitude) \<lparr>backing = [b1, b2, b3, b4, b5, b6], len = 6\<rparr>
           = Inr \<lparr>backing = [b4, b2, b6, b3, b1, b5], len = 6\<rparr>"
    using assms(1-12) by (rule sort_six)
  have t: "slice_to \<lparr>backing = [b4, b2, b6, b3, b1, b5], len = 6\<rparr> 5
           = Inr \<lparr>backing = [b4, b2, b6, b3, b1, b5], len = 5\<rparr>"
    by (simp add: slice_to_def cap_def)
  have e: "elems \<lparr>backing = [b4, b2, b6, b3, b1, b5], len = 5\<rparr> = [b4, b2, b6, b3, b1]"
    by (simp add: elems_def)
  have p: "printBikes latitude longitude [b4, b2, b6, b3, b1] =
     ([BikeLine (Bike.Name b4) (Bike.Address b4) 5 (EbikeBatteryLevel b4),
       BikeLine (Bike.Name b2) (Bike.Address b2) 10 (EbikeBatteryLevel b2),
       BikeLine (Bike.Name b6) (Bike.Address b6) 20 (EbikeBatteryLevel b6),
       BikeLine (Bike.Name b3) (Bike.Address b3) 30 (EbikeBatteryLevel b3),
       BikeLine (Bike.Name b1) (Bike.Address b1) 50 (EbikeBatteryLevel b1)], None)"
    using assms(1-4,6-10,12) by (rule print_five)
  have n: "b5 \<noteq> b4 \<and> b5 \<noteq> b2 \<and> b5 \<noteq> b6 \<and> b5 \<noteq> b3 \<and> b5 \<noteq> b1"
    using assms(1-12) by auto
  have r: "take 7 (stdout (fst (runBikes w latitude longitude))) =
           [Text ''Bikes'',
            BikeLine (Bike.Name b4) (Bike.Address b4) 5 (EbikeBatteryLevel b4),
            BikeLine (Bike.Name b2) (Bike.Address b2) 10 (EbikeBatteryLevel b2),
            BikeLine (Bike.Name b6) (Bike.Address b6) 20 (EbikeBatteryLevel b6),
            BikeLine (Bike.Name b3) (Bike.Address b3) 30 (EbikeBatteryLevel b3),
            BikeLine (Bike.Name b1) (Bike.Address b1) 50 (EbikeBatteryLevel b1),
            Text []]"
    using assms(16) s t e p
    by (simp add: runBikes_def split_beta stdout_def)
  have "stdout (fst (run w)) = stdout (fst (runBikes w latitude longitude))"
    using assms(13-15) by (simp add: stdout_run)
  with s t e n r show ?thesis by simp
qed

lemma bikes_ranked_example:
  "sort_Slice (lessBikes 0 0) sixBikes =
     Inr \<lparr>backing = [bikeAt ''b5'' [milesEast 5, 0], bikeAt ''b10'' [milesEast 10, 0],
                     bikeAt ''b20'' [milesEast 20, 0], bikeAt ''b30'' [milesEast 30, 0],
                     bikeAt ''b50'' [milesEast 50, 0], bikeAt ''b100'' [milesEast 100, 0]],
          len = 6\<rparr>
   \<and> take 7 (stdout (fst (run
        (fixtureWorld origin (Inr sixBikes) (Inr fiveHubs) True BeforeSort)))) =
      [Text ''Bikes'', BikeLine ''b5'' [] 5 0, BikeLine ''b10'' [] 10 0, BikeLine ''b20'' [] 20 0,
       BikeLine ''b30'' [] 30 0, BikeLine ''b50'' [] 50 0, Text []]"
  using bikes_ranked
    [of "bikeAt ''b50'' [milesEast 50, 0]" "milesEast 50" 0
        "bikeAt ''b10'' [milesEast 10, 0]" "milesEast 10" 0
        "bikeAt ''b30'' [milesEast 30, 0]" "milesEast 30" 0
        "bikeAt ''b5'' [milesEast 5, 0]" "milesEast 5" 0
        "bikeAt ''b100'' [milesEast 100, 0]" "milesEast 100" 0
        "bikeAt ''b20'' [milesEast 20, 0]" "milesEast 20" 0
        0 0 "fixtureWorld origin (Inr sixBikes) (Inr fiveHubs) True BeforeSort"]
  by (simp add: distance_milesEast sixBikes_def bikeAt_def zeroBike_def fixtureWorld_def
      getEnvFloat_def fixtureParseFloat_def origin_def)

text \<open>The comparison of hubs ranks the same six distances the same way.\<close>

lemma hubs_ranked:
  assumes "Coordinates (MiddlePoint h1) = [lon1, lat1]"
    and "Coordinates (MiddlePoint h2) = [lon2, lat2]"
    and "Coordinates (MiddlePoint h3) = [lon3, lat3]"
    and "Coordinates (MiddlePoint h4) = [lon4, lat4]"
    and "Coordinates (MiddlePoint h5) = [lon5, lat5]"
    and "Coordinates (MiddlePoint h6) = [lon6, lat6]"
    and "distance latitude longitude lat1 lon1 = 50"
    and "distance latitude longitude lat2 lon2 = 10"
    and "distance latitude longitude lat3 lon3 = 30"
    and "distance latitude longitude lat4 lon4 = 5"
    and "distance latitude longitude lat5 lon5 = 100"
    and "distance latitude longitude lat6 lon6 = 20"
  shows "sort_Slice (lessHubs latitude longitude) \<lparr>backing = [h1, h2, h3, h4, h5, h6], len = 6\<rparr>
           = Inr \<lparr>backing = [h4, h2, h6, h3, h1, h5], len = 6\<rparr>
       \<and> map_sum id elems (slice_to \<lparr>backing = [h4, h2, h6, h3, h1, h5], len = 6\<rparr> 5)
           = Inr [h4, h2, h6, h3, h1]"
proof -
  have "sort_Slice (lessHubs latitude longitude) \<lparr>backing = [h1, h2, h3, h4, h5, h6], len = 6\<rparr>
           = Inr \<lparr>backing = [h4, h2, h6, h3, h1, h5], len = 6\<rparr>"
    using assms by (simp add: sort_Slice_def elems_def lessHubs_def index_def Let_def)
  moreover
  have "map_sum id elems (slice_to \<lparr>backing = [h4, h2, h6, h3, h1, h5], len = 6\<rparr> 5)
           = Inr [h4, h2, h6, h3, h1]"
    by (simp add: slice_to_def cap_def elems_def)
  ultimately show ?thesis by simp
qed

lemmas six_eval = run_eval sixBikes_def sixHubs_def stdout_def distance_milesEast

text \<open>
  C4. Six bikes and six hubs at 50, 10, 30, 5, 100 and 20 miles are fetched. When the hubs
  goroutine finishes after the main flow has passed the sort of \<^verbatim>\<open>hubs\<close>, the bikes are
  printed ranked, 5, 10, 20, 30, 50 miles, but the hubs are printed as fetched, 50, 10, 30,
  5 and 100 miles: the hub at 100 miles is printed and the hub at 20 miles is not. When
  the goroutine finishes before that sort, the hubs are ranked as the bikes are.
\<close>

theorem hubs_ranking_skipped:
  "stdout (fst (run (fixtureWorld origin (Inr sixBikes) (Inr sixHubs) True BeforeDeadline))) =
     [Text ''Bikes'', BikeLine ''b5'' [] 5 0, BikeLine ''b10'' [] 10 0, BikeLine ''b20'' [] 20 0,
      BikeLine ''b30'' [] 30 0, BikeLine ''b50'' [] 50 0, Text [],
      Text ''Hubs'', HubLine ''h50'' [] 0 50, HubLine ''h10'' [] 0 10, HubLine ''h30'' [] 0 30,
      HubLine ''h5'' [] 0 5, HubLine ''h100'' [] 0 100]
   \<and> stdout (fst (run (fixtureWorld origin (Inr sixBikes) (Inr sixHubs) True BeforeSort))) =
     [Text ''Bikes'', BikeLine ''b5'' [] 5 0, BikeLine ''b10'' [] 10 0, BikeLine ''b20'' [] 20 0,
      BikeLine ''b30'' [] 30 0, BikeLine ''b50'' [] 50 0, Text [],
      Text ''Hubs'', HubLine ''h5'' [] 0 5, HubLine ''h10'' [] 0 10, HubLine ''h20'' [] 0 20,
      HubLine ''h30'' [] 0 30, HubLine ''h50'' [] 0 50]"
  by (simp add: six_eval)

text \<open>
  \<^verbatim>\<open>s[:5]\<close> on a slice of fewer than five elements never gives back those elements: it
  panics, or it reaches past them into the backing array.
\<close>

lemma slice_to_short:
  assumes "len s < 5" and "len s \<le> cap s"
  shows "slice_to s 5 = Inl (SliceBoundsOutOfRange 5 (cap s))
       \<or> (\<exists>t. slice_to s 5 = Inr t \<and> length (elems t) = 5 \<and> length (elems s) < 5)"
  using assms by (auto simp: slice_to_def cap_def elems_def)

text \<open>
  C1. Three bikes are fetched (in a backing array of four). The main flow prints the
  title of the bikes section and then panics on \<^verbatim>\<open>bikes[:5]\<close>: the bound 5 exceeds the
  capacity 4. Nothing is clamped and no bike is printed.
\<close>

theorem short_list_panics:
  "run (fixtureWorld origin (Inr threeBikes) (Inr fiveHubs) True BeforeSort) =
     ([NewClientCall, Go BikesFetch, Go HubsFetch, Recv BikesFetch, ReadErr BikesFetch,
       Sort BikesFetch, Print (Text ''Bikes'')],
      Panics (SliceBoundsOutOfRange 5 4))"
  by (simp add: run_eval threeBikes_def)

text \<open>
  In every run whose main flow receives from \<^verbatim>\<open>hubsDone\<close>, the sort of \<^verbatim>\<open>hubs\<close> comes
  before that receive.
\<close>

lemma runHubs_starts_with_sort: "\<exists>post. fst (runHubs w la lo) = Sort HubsFetch # post"
  by (auto simp: runHubs_def Let_def split: sum.splits prod.splits option.splits)

lemma runBikes_sort_first:
  assumes "Recv HubsFetch \<in> set (fst (runBikes w la lo))"
  shows "\<exists>pre post. fst (runBikes w la lo) = pre @ Sort HubsFetch # post
           \<and> Recv HubsFetch \<notin> set pre"
proof -
  obtain post where h: "fst (runHubs w la lo) = Sort HubsFetch # post"
    using runHubs_starts_with_sort by blast
  show ?thesis
  proof (cases "BikesCall w")
    case (Inl e)
    with assms show ?thesis by (simp add: runBikes_def)
  next
    case (Inr bikes0)
    show ?thesis
    proof (cases "sort_Slice (lessBikes la lo) bikes0")
      case (Inl p)
      with Inr assms show ?thesis by (simp add: runBikes_def)
    next
      case sorted: (Inr bikes)
      show ?thesis
      proof (cases "slice_to bikes 5")
        case (Inl p)
        with Inr sorted assms show ?thesis by (simp add: runBikes_def)
      next
        case five: (Inr five)
        obtain out stop where pb: "printBikes la lo (elems five) = (out, stop)"
          by (cases "printBikes la lo (elems five)")
        show ?thesis
        proof (cases stop)
          case (Some p)
          with Inr sorted five pb assms show ?thesis by (auto simp: runBikes_def)
        next
          case None
          let ?pre = "[ReadErr BikesFetch, Sort BikesFetch, Print (Text ''Bikes'')] @ map Print out
                      @ [Print (Text [])]"
          have "fst (runBikes w la lo) = ?pre @ Sort HubsFetch # post"
            using Inr sorted five pb None h by (simp add: runBikes_def split_beta)
          moreover have "Recv HubsFetch \<notin> set ?pre" by auto
          ultimately show ?thesis by blast
        qed
      qed
    qed
  qed
qed

lemma hubs_sort_precedes_wait:
  assumes "Recv HubsFetch \<in> set (fst (run w))"
  shows "\<exists>pre post. fst (run w) = pre @ Sort HubsFetch # post \<and> Recv HubsFetch \<notin> set pre"
proof -
  obtain la ea where a: "getEnvFloat w ''LAT'' = (la, ea)"
    by (cases "getEnvFloat w ''LAT''")
  obtain lo eo where b: "getEnvFloat w ''LNG'' = (lo, eo)"
    by (cases "getEnvFloat w ''LNG''")
  have shape: "ea = None \<and> eo = None \<and> BikesDone w
      \<and> fst (run w) = [NewClientCall, Go BikesFetch, Go HubsFetch, Recv BikesFetch] @ fst (runBikes w la lo)"
    using assms
    by (cases ea; cases eo; cases "BikesDone w")
      (simp_all add: run_def a b doAsync_def split_beta)
  then have "Recv HubsFetch \<in> set (fst (runBikes w la lo))" using assms by simp
  then obtain pre post where
    p: "fst (runBikes w la lo) = pre @ Sort HubsFetch # post" "Recv HubsFetch \<notin> set pre"
    using runBikes_sort_first by blast
  let ?pre = "[NewClientCall, Go BikesFetch, Go HubsFetch, Recv BikesFetch] @ pre"
  have "fst (run w) = ?pre @ Sort HubsFetch # post" using shape p(1) by simp
  moreover have "Recv HubsFetch \<notin> set ?pre" using p(2) by simp
  ultimately show ?thesis by blast
qed

text \<open>
  C3. Five bikes and five hubs are fetched, and the hubs goroutine finishes after the main
  flow has passed the sort of \<^verbatim>\<open>hubs\<close>. The main flow sorts \<^verbatim>\<open>hubs\<close> before it waits
  for \<^verbatim>\<open>hubsDone\<close>; the sort sees the \<^verbatim>\<open>nil\<close> slice, and the hubs are printed in the
  order fetched, the far one before the near one.
\<close>

theorem hubs_sorted_before_wait:
  "run (fixtureWorld origin (Inr fiveBikes) (Inr fiveHubs) True BeforeDeadline) =
     ([NewClientCall, Go BikesFetch, Go HubsFetch, Recv BikesFetch, ReadErr BikesFetch,
       Sort BikesFetch, Print (Text ''Bikes''),
       Print (BikeLine ''a'' [] (distance 0 0 0 0) 0),
       Print (BikeLine ''b'' [] (distance 0 0 0 0) 0),
       Print (BikeLine ''c'' [] (distance 0 0 0 0) 0),
       Print (BikeLine ''d'' [] (distance 0 0 0 0) 0),
       Print (BikeLine ''e'' [] (distance 0 0 0 0) 0),
       Print (Text []), Sort HubsFetch, Recv HubsFetch, ReadErr HubsFetch,
       Print (Text ''Hubs''),
       Print (HubLine ''far'' [] 0 (distance 0 0 0 1)),
       Print (HubLine ''near'' [] 0 (distance 0 0 0 0)),
       Print (HubLine ''h3'' [] 0 (distance 0 0 0 1)),
       Print (HubLine ''h4'' [] 0 (distance 0 0 0 1)),
       Print (HubLine ''h5'' [] 0 (distance 0 0 0 1))],
      Return None)
   \<and> distance 0 0 0 0 < distance 0 0 0 1"
proof -
  have near: "distance 0 0 0 0 = 0" using distance_equator [of 0] by simp
  have "(0::real) < 3958.756 * (pi / 180)" by simp
  moreover have "distance 0 0 0 1 = 3958.756 * (pi / 180)" using distance_equator [of 1] by simp
  ultimately have "0 < distance 0 0 0 1" by (simp only:)
  with near have order: "distance 0 0 0 0 < distance 0 0 0 1" by (simp only:)
  have "run (fixtureWorld origin (Inr fiveBikes) (Inr fiveHubs) True BeforeDeadline) =
     ([NewClientCall, Go BikesFetch, Go HubsFetch, Recv BikesFetch, ReadErr BikesFetch,
       Sort BikesFetch, Print (Text ''Bikes''),
       Print (BikeLine ''a'' [] (distance 0 0 0 0) 0),
       Print (BikeLine ''b'' [] (distance 0 0 0 0) 0),
       Print (BikeLine ''c'' [] (distance 0 0 0 0) 0),
       Print (BikeLine ''d'' [] (distance 0 0 0 0) 0),
       Print (BikeLine ''e'' [] (distance 0 0 0 0) 0),
       Print (Text []), Sort HubsFetch, Recv HubsFetch, ReadErr HubsFetch,
       Print (Text ''Hubs''),
       Print (HubLine ''far'' [] 0 (distance 0 0 0 1)),
       Print (HubLine ''near'' [] 0 (distance 0 0 0 0)),
       Print (HubLine ''h3'' [] 0 (distance 0 0 0 1)),
       Print (HubLine ''h4'' [] 0 (distance 0 0 0 1)),
       Print (HubLine ''h5'' [] 0 (distance 0 0 0 1))],
      Return None)"
    by (simp add: run_eval fiveBikes_def fiveHubs_def)
  with order show ?thesis by blast
qed

text \<open>
  C2, as the claim states it, fails: five bikes are fetched and the hubs fetch returns an
  error. The run returns that error after it has printed the whole bikes section.
\<close>

theorem partial_output_counterexample:
  "snd (run (fixtureWorld origin (Inr fiveBikes) (Inl ''jump.Hubs: got status code 500: '')
          True BeforeSort))
     = Return (Some ''jump.Hubs: got status code 500: '')
   \<and> stdout (fst (run (fixtureWorld origin (Inr fiveBikes)
          (Inl ''jump.Hubs: got status code 500: '') True BeforeSort)))
     = [Text ''Bikes'',
        BikeLine ''a'' [] (distance 0 0 0 0) 0,
        BikeLine ''b'' [] (distance 0 0 0 0) 0,
        BikeLine ''c'' [] (distance 0 0 0 0) 0,
        BikeLine ''d'' [] (distance 0 0 0 0) 0,
        BikeLine ''e'' [] (distance 0 0 0 0) 0,
        Text []]"
  by (simp add: run_eval fiveBikes_def stdout_def)

lemma runHubs_failed_result:
  assumes "HubsArrival w = AfterDeadline \<or> (\<exists>e. HubsCall w = Inl e)"
  shows "\<exists>err. snd (runHubs w la lo) = Return (Some err)"
  using assms
  by (auto simp: runHubs_def sort_nil)

lemma run_after_env:
  assumes "getEnvFloat w ''LAT'' = (latitude, None)" and "getEnvFloat w ''LNG'' = (longitude, None)"
    and "BikesDone w"
  shows "stdout (fst (run w)) = stdout (fst (runBikes w latitude longitude))
       \<and> snd (run w) = snd (runBikes w latitude longitude)"
  using assms
  by (simp add: run_def doAsync_def split_beta stdout_Cons stdout_Nil stdout_append)

lemma bikes_section_stays:
  assumes "BikesCall w = Inr fetched"
    and "sort_Slice (lessBikes la lo) fetched = Inr bikes"
    and "slice_to bikes 5 = Inr five"
    and "printBikes la lo (elems five) = (out, None)"
    and "HubsArrival w = AfterDeadline \<or> (\<exists>e. HubsCall w = Inl e)"
  shows "stdout (fst (runBikes w la lo)) = Text ''Bikes'' # out @ [Text []]
       \<and> (\<exists>err. snd (runBikes w la lo) = Return (Some err))"
proof -
  have h: "stdout (fst (runHubs w la lo)) = []" using assms(5) by (rule runHubs_failed)
  obtain err where e: "snd (runHubs w la lo) = Return (Some err)"
    using runHubs_failed_result [OF assms(5)] by blast
  have "stdout (fst (runBikes w la lo)) = Text ''Bikes'' # out @ [Text []]"
    using assms(1-4) h
    by (simp add: runBikes_def split_beta stdout_Cons stdout_Nil stdout_append stdout_Print)
  moreover have "snd (runBikes w la lo) = Return (Some err)"
    using assms(1-4) e by (simp add: runBikes_def split_beta)
  ultimately show ?thesis by blast
qed

lemma run_bikes_failed:
  assumes "\<not> BikesDone w \<or> (\<exists>e. BikesCall w = Inl e)"
  shows "stdout (fst (run w)) = []"
proof (cases "BikesDone w")
  case False
  then show ?thesis by (simp add: stdout_run)
next
  case True
  with assms obtain e where e: "BikesCall w = Inl e" by blast
  show ?thesis by (simp add: stdout_run runBikes_failed [OF e])
qed

lemma run_hubs_failed:
  assumes "HubsArrival w = AfterDeadline \<or> (\<exists>e. HubsCall w = Inl e)"
  shows "filter isHubsOutput (stdout (fst (run w))) = []"
  by (simp add: stdout_run runBikes_no_hubs [OF assms])

lemma run_bikes_section_stays:
  assumes "getEnvFloat w ''LAT'' = (latitude, None)" and "getEnvFloat w ''LNG'' = (longitude, None)"
    and "BikesDone w" and "BikesCall w = Inr fetched"
    and "sort_Slice (lessBikes latitude longitude) fetched = Inr bikes"
    and "slice_to bikes 5 = Inr five"
    and "printBikes latitude longitude (elems five) = (out, None)"
    and "HubsArrival w = AfterDeadline \<or> (\<exists>e. HubsCall w = Inl e)"
  shows "stdout (fst (run w)) = Text ''Bikes'' # out @ [Text []]
       \<and> (\<exists>err. snd (run w) = Return (Some err))"
proof -
  have "stdout (fst (run w)) = stdout (fst (runBikes w latitude longitude))
       \<and> snd (run w) = snd (runBikes w latitude longitude)"
    using assms(1-3) by (rule run_after_env)
  moreover
  have "stdout (fst (runBikes w latitude longitude)) = Text ''Bikes'' # out @ [Text []]
       \<and> (\<exists>err. snd (runBikes w latitude longitude) = Return (Some err))"
    using assms(4-8) by (rule bikes_section_stays)
  ultimately show ?thesis by simp
qed

text \<open>
  C2, amended. When the bikes fetch fails or is not finished before its timer, the run
  prints nothing. When the hubs fetch fails or is not finished before its timer, the run
  prints no line of the hubs section; and if the bikes were fetched and their section was
  printed to its end, the output of the run is that section (title, bike lines, empty
  line) and the run returns an error.
\<close>

theorem failed_fetch_output:
  "((\<not> BikesDone w \<or> (\<exists>e. BikesCall w = Inl e)) \<longrightarrow> stdout (fst (run w)) = [])
   \<and> ((HubsArrival w = AfterDeadline \<or> (\<exists>e. HubsCall w = Inl e)) \<longrightarrow>
        filter isHubsOutput (stdout (fst (run w))) = [])
   \<and> (getEnvFloat w ''LAT'' = (latitude, None) \<and> getEnvFloat w ''LNG'' = (longitude, None)
        \<and> BikesDone w \<and> BikesCall w = Inr fetched
        \<and> sort_Slice (lessBikes latitude longitude) fetched = Inr bikes
        \<and> slice_to bikes 5 = Inr five
        \<and> printBikes latitude longitude (elems five) = (out, None)
        \<and> (HubsArrival w = AfterDeadline \<or> (\<exists>e. HubsCall w = Inl e)) \<longrightarrow>
        stdout (fst (run w)) = Text ''Bikes'' # out @ [Text []]
        \<and> (\<exists>err. snd (run w) = Return (Some err)))"
  using run_bikes_failed [of w] run_hubs_failed [of w]
    run_bikes_section_stays [of w latitude longitude fetched bikes five out]
  by blast

theorem failed_fetch_output_witness:
  "HubsCall (fixtureWorld origin (Inr fiveBikes) (Inl ''jump.Hubs: got status code 500: '') True BeforeSort)
     = Inl ''jump.Hubs: got status code 500: ''
   \<and> filter isHubsOutput (stdout (fst (run
        (fixtureWorld origin (Inr fiveBikes) (Inl ''jump.Hubs: got status code 500: '') True BeforeSort)))) = []
   \<and> stdout (fst (run
        (fixtureWorld origin (Inr fiveBikes) (Inl ''jump.Hubs: got status code 500: '') True BeforeSort)))
      = [Text ''Bikes'',
         BikeLine ''a'' [] (distance 0 0 0 0) 0,
         BikeLine ''b'' [] (distance 0 0 0 0) 0,
         BikeLine ''c'' [] (distance 0 0 0 0) 0,
         BikeLine ''d'' [] (distance 0 0 0 0) 0,
         BikeLine ''e'' [] (distance 0 0 0 0) 0,
         Text []]
   \<and> \<not> BikesDone (fixtureWorld origin (Inr fiveBikes) (Inr fiveHubs) False BeforeSort)
   \<and> stdout (fst (run (fixtureWorld origin (Inr fiveBikes) (Inr fiveHubs) False BeforeSort))) = []"
proof -
  let ?w = "fixtureWorld origin (Inr fiveBikes) (Inl ''jump.Hubs: got status code 500: '') True BeforeSort"
  let ?out = "[BikeLine ''a'' [] (distance 0 0 0 0) 0,
         BikeLine ''b'' [] (distance 0 0 0 0) 0,
         BikeLine ''c'' [] (distance 0 0 0 0) 0,
         BikeLine ''d'' [] (distance 0 0 0 0) 0,
         BikeLine ''e'' [] (distance 0 0 0 0) 0]"
  have e1: "getEnvFloat ?w ''LAT'' = (0, None)" "getEnvFloat ?w ''LNG'' = (0, None)"
    by (simp_all add: getEnvFloat_def fixtureWorld_def fixtureParseFloat_def origin_def)
  have e2: "BikesDone ?w" "BikesCall ?w = Inr fiveBikes"
    "HubsCall ?w = Inl ''jump.Hubs: got status code 500: ''"
    by (simp_all add: fixtureWorld_def)
  have e3: "sort_Slice (lessBikes 0 0) fiveBikes = Inr fiveBikes"
    by (simp add: fiveBikes_def sort_Slice_def elems_def lessBikes_def index_def Let_def
        bikeAt_def zeroBike_def)
  have e4: "slice_to fiveBikes 5 = Inr fiveBikes"
    by (simp add: fiveBikes_def slice_to_def cap_def)
  have e5: "printBikes 0 0 (elems fiveBikes) = (?out, None)"
    by (simp add: fiveBikes_def elems_def index_def Let_def bikeAt_def zeroBike_def)
  have third: "stdout (fst (run ?w)) = Text ''Bikes'' # ?out @ [Text []]"
    using failed_fetch_output [of ?w 0 0 fiveBikes fiveBikes fiveBikes ?out] e1 e2 e3 e4 e5
    by blast
  have second: "filter isHubsOutput (stdout (fst (run ?w))) = []"
    using failed_fetch_output [of ?w] e2 by blast
  have first: "stdout (fst (run (fixtureWorld origin (Inr fiveBikes) (Inr fiveHubs) False BeforeSort))) = []"
    using failed_fetch_output [of "fixtureWorld origin (Inr fiveBikes) (Inr fiveHubs) False BeforeSort"]
    by (simp add: fixtureWorld_def)
  from first second third e2 show ?thesis by (simp add: fixtureWorld_def)
qed

end
